theory Spec2Isabelle
  imports Complex_Main "HOL-Library.AList" "HOL-Library.Multiset"
begin

section \<open>Python values, exceptions and the built-ins the module relies on\<close>

text \<open>
  The module \<^verbatim>\<open>lambda_function.py\<close> works on the dictionaries that boto3 and
  \<^verbatim>\<open>json.loads\<close> hand to it. They are modelled by one datatype of dynamically typed
  values; a dictionary is an association list with string keys. A float is modelled by
  the real number it denotes, so the model has the finite floats only: infinities and NaN
  are outside it. Arithmetic on floats is not the arithmetic of the reals: the sum, the
  addition and the product that the module uses are operations of the runtime, which
  round, and are parameters of the model. Strings are lists of ASCII characters.
\<close>

datatype exn_kind =
  KeyError | IndexError | TypeError | ValueError | AttributeError | OverflowError
  | DataUnavailableException | ClientError | PlainException

text \<open>An exception is its class together with the text that \<^verbatim>\<open>str(e)\<close> gives.\<close>

type_synonym exn = "exn_kind \<times> string"

datatype pyval =
  PNone | PBool bool | PInt int | PFloat real | PStr string
  | PList "pyval list" | PDict "(string \<times> pyval) list"

type_synonym event = "(string \<times> pyval) list"

text \<open>
  Built-ins whose full behaviour is not reproduced here are parameters of the model:
  \<^verbatim>\<open>float\<close> on a string (\<open>None\<close> stands for ValueError) and on an integer (\<open>None\<close>
  stands for OverflowError), the built-in \<^verbatim>\<open>sum\<close> on a list of floats, \<^verbatim>\<open>+\<close> on two
  floats, \<^verbatim>\<open>*\<close> on a float and an integer, \<^verbatim>\<open>json.loads\<close>, \<^verbatim>\<open>json.dumps\<close> and
  \<^verbatim>\<open>repr\<close>. Nothing is assumed about them: in particular the sum and the addition need
  be neither exact nor independent of the order of the summands.
\<close>

record runtime =
  float_of_str :: "string \<Rightarrow> real option"
  float_of_int :: "int \<Rightarrow> real option"
  float_sum :: "real list \<Rightarrow> real"
  float_add :: "real \<Rightarrow> real \<Rightarrow> real"
  float_mul_int :: "real \<Rightarrow> int \<Rightarrow> real"
  json_loads :: "string \<Rightarrow> exn + pyval"
  json_dumps :: "pyval \<Rightarrow> string"
  repr :: "pyval \<Rightarrow> string"

definition ebind :: "exn + 'a \<Rightarrow> ('a \<Rightarrow> exn + 'b) \<Rightarrow> exn + 'b" where
  "ebind m f = (case m of Inl e \<Rightarrow> Inl e | Inr x \<Rightarrow> f x)"

fun mapM_exn :: "('a \<Rightarrow> exn + 'b) \<Rightarrow> 'a list \<Rightarrow> exn + 'b list" where
  "mapM_exn f [] = Inr []"
| "mapM_exn f (x # xs) =
     (case f x of Inl e \<Rightarrow> Inl e
      | Inr y \<Rightarrow> (case mapM_exn f xs of Inl e \<Rightarrow> Inl e | Inr ys \<Rightarrow> Inr (y # ys)))"

text \<open>\<^verbatim>\<open>str(n)\<close> for a natural number.\<close>

definition digit_char :: "nat \<Rightarrow> char" where
  "digit_char n = ''0123456789'' ! n"

fun str_nat :: "nat \<Rightarrow> string" where
  "str_nat n = (if n < 10 then [digit_char n] else str_nat (n div 10) @ [digit_char (n mod 10)])"

declare str_nat.simps [simp del]

text \<open>
  The type name of a value and the texts of the exceptions (those of CPython 3.11) that
  name it.
\<close>

fun type_name :: "pyval \<Rightarrow> string" where
  "type_name PNone = ''NoneType''"
| "type_name (PBool b) = ''bool''"
| "type_name (PInt i) = ''int''"
| "type_name (PFloat r) = ''float''"
| "type_name (PStr s) = ''str''"
| "type_name (PList xs) = ''list''"
| "type_name (PDict d) = ''dict''"

definition quoted :: "string \<Rightarrow> string" where
  "quoted s = [CHR 0x27] @ s @ [CHR 0x27]"

definition no_attribute :: "pyval \<Rightarrow> string \<Rightarrow> exn" where
  "no_attribute v a =
     (AttributeError, quoted (type_name v) @ '' object has no attribute '' @ quoted a)"

definition not_subscriptable :: "pyval \<Rightarrow> exn" where
  "not_subscriptable v = (TypeError, quoted (type_name v) @ '' object is not subscriptable'')"

fun py_truthy :: "pyval \<Rightarrow> bool" where
  "py_truthy PNone = False"
| "py_truthy (PBool b) = b"
| "py_truthy (PInt i) = (i \<noteq> 0)"
| "py_truthy (PFloat r) = (r \<noteq> 0)"
| "py_truthy (PStr s) = (s \<noteq> [])"
| "py_truthy (PList xs) = (xs \<noteq> [])"
| "py_truthy (PDict d) = (d \<noteq> [])"

text \<open>\<^verbatim>\<open>v.get(k, dflt)\<close>: only a dictionary has the method.\<close>

fun py_get :: "pyval \<Rightarrow> string \<Rightarrow> pyval \<Rightarrow> exn + pyval" where
  "py_get (PDict d) k dflt = Inr (case map_of d k of Some v \<Rightarrow> v | None \<Rightarrow> dflt)"
| "py_get v k dflt = Inl (no_attribute v ''get'')"

text \<open>\<^verbatim>\<open>v[k]\<close> with a string key.\<close>

fun py_item :: "pyval \<Rightarrow> string \<Rightarrow> exn + pyval" where
  "py_item (PDict d) k =
     (case map_of d k of Some v \<Rightarrow> Inr v | None \<Rightarrow> Inl (KeyError, quoted k))"
| "py_item (PList xs) k = Inl (TypeError, ''list indices must be integers or slices, not str'')"
| "py_item (PStr s) k = Inl (TypeError, ''string indices must be integers, not '' @ quoted ''str'')"
| "py_item v k = Inl (not_subscriptable v)"

text \<open>\<^verbatim>\<open>v[i]\<close> with a non-negative integer index.\<close>

fun py_index :: "pyval \<Rightarrow> nat \<Rightarrow> exn + pyval" where
  "py_index (PList xs) i =
     (if i < length xs then Inr (xs ! i) else Inl (IndexError, ''list index out of range''))"
| "py_index (PStr s) i =
     (if i < length s then Inr (PStr [s ! i]) else Inl (IndexError, ''string index out of range''))"
| "py_index (PDict d) i = Inl (KeyError, str_nat i)"
| "py_index v i = Inl (not_subscriptable v)"

fun py_len :: "pyval \<Rightarrow> exn + nat" where
  "py_len (PList xs) = Inr (length xs)"
| "py_len (PStr s) = Inr (length s)"
| "py_len (PDict d) = Inr (length d)"
| "py_len v = Inl (TypeError, ''object of type '' @ quoted (type_name v) @ '' has no len()'')"

text \<open>Iteration, as \<^verbatim>\<open>list.extend\<close> performs it on its argument.\<close>

fun py_iter :: "pyval \<Rightarrow> exn + pyval list" where
  "py_iter (PList xs) = Inr xs"
| "py_iter (PStr s) = Inr (map (\<lambda>c. PStr [c]) s)"
| "py_iter (PDict d) = Inr (map (\<lambda>p. PStr (fst p)) d)"
| "py_iter v = Inl (TypeError, quoted (type_name v) @ '' object is not iterable'')"

fun py_items :: "pyval \<Rightarrow> exn + (string \<times> pyval) list" where
  "py_items (PDict d) = Inr d"
| "py_items v = Inl (no_attribute v ''items'')"

fun py_float :: "runtime \<Rightarrow> pyval \<Rightarrow> exn + real" where
  "py_float rt (PFloat r) = Inr r"
| "py_float rt (PInt i) =
     (case float_of_int rt i of Some r \<Rightarrow> Inr r
      | None \<Rightarrow> Inl (OverflowError, ''int too large to convert to float''))"
| "py_float rt (PBool b) = Inr (if b then 1 else 0)"
| "py_float rt (PStr s) =
     (case float_of_str rt s of Some r \<Rightarrow> Inr r
      | None \<Rightarrow> Inl (ValueError, ''could not convert string to float: '' @ repr rt (PStr s)))"
| "py_float rt v =
     Inl (TypeError, ''float() argument must be a string or a real number, not ''
                       @ quoted (type_name v))"

fun py_str :: "runtime \<Rightarrow> pyval \<Rightarrow> string" where
  "py_str rt (PStr s) = s"
| "py_str rt v = repr rt v"

text \<open>\<^verbatim>\<open>round(x)\<close> with one argument: to the nearest integer, ties to the even one.\<close>

definition py_round :: "real \<Rightarrow> int" where
  "py_round x =
     (let f = \<lfloor>x\<rfloor>; d = x - of_int f
      in if d < 1 / 2 then f else if 1 / 2 < d then f + 1 else if even f then f else f + 1)"

subsection \<open>Strings\<close>

definition zero_pad :: "nat \<Rightarrow> string \<Rightarrow> string" where
  "zero_pad w s = replicate (w - length s) (CHR ''0'') @ s"

definition is_upper :: "char \<Rightarrow> bool" where
  "is_upper c = (65 \<le> (of_char c :: nat) \<and> (of_char c :: nat) \<le> 90)"

definition is_lower :: "char \<Rightarrow> bool" where
  "is_lower c = (97 \<le> (of_char c :: nat) \<and> (of_char c :: nat) \<le> 122)"

definition lower_char :: "char \<Rightarrow> char" where
  "lower_char c = (if is_upper c then char_of ((of_char c :: nat) + 32) else c)"

definition upper_char :: "char \<Rightarrow> char" where
  "upper_char c = (if is_lower c then char_of ((of_char c :: nat) - 32) else c)"

text \<open>\<^verbatim>\<open>s.split(sep)\<close> with a one-character separator.\<close>

fun split_on :: "char \<Rightarrow> string \<Rightarrow> string list" where
  "split_on sep [] = [[]]"
| "split_on sep (c # cs) =
     (if c = sep then [] # split_on sep cs
      else (case split_on sep cs of [] \<Rightarrow> [[c]] | w # ws \<Rightarrow> (c # w) # ws))"

text \<open>
  \<^verbatim>\<open>s.title()\<close>: a cased character is upper-cased when the character before it is
  not cased, and lower-cased otherwise.
\<close>

fun title_from :: "bool \<Rightarrow> string \<Rightarrow> string" where
  "title_from prev [] = []"
| "title_from prev (c # cs) =
     (if prev then lower_char c else upper_char c) # title_from (is_upper c \<or> is_lower c) cs"

definition to_camel_case :: "string \<Rightarrow> string" where
  "to_camel_case snake_str =
     (if snake_str = [] then []
      else (case split_on (CHR ''_'') (map lower_char snake_str) of
              [] \<Rightarrow> []
            | c0 # components \<Rightarrow> c0 @ concat (map (title_from False) components)))"

definition startswith :: "string \<Rightarrow> string \<Rightarrow> bool" where
  "startswith s p = (take (length p) s = p)"

definition replace_char :: "char \<Rightarrow> char \<Rightarrow> string \<Rightarrow> string" where
  "replace_char old new s = map (\<lambda>c. if c = old then new else c) s"

text \<open>\<^verbatim>\<open>s.find(c)\<close> and \<^verbatim>\<open>s.rfind(c)\<close> for a one-character needle: an index, or -1.\<close>

fun find_char :: "char \<Rightarrow> string \<Rightarrow> int" where
  "find_char c [] = -1"
| "find_char c (x # xs) =
     (if x = c then 0 else (let i = find_char c xs in if i < 0 then -1 else i + 1))"

definition rfind_char :: "char \<Rightarrow> string \<Rightarrow> int" where
  "rfind_char c s =
     (let i = find_char c (rev s) in if i < 0 then -1 else int (length s) - 1 - i)"

text \<open>\<^verbatim>\<open>s[a:b]\<close>: a negative bound counts from the end, and both are clamped.\<close>

definition slice_bound :: "nat \<Rightarrow> int \<Rightarrow> nat" where
  "slice_bound n a = (if a < 0 then nat (max (int n + a) 0) else min (nat a) n)"

definition py_slice :: "string \<Rightarrow> int \<Rightarrow> int \<Rightarrow> string" where
  "py_slice s a b =
     (let lo = slice_bound (length s) a; hi = slice_bound (length s) b
      in take (hi - lo) (drop lo s))"

subsection \<open>Dates\<close>

record date =
  year :: nat
  month :: nat
  day :: nat

definition is_leap :: "nat \<Rightarrow> bool" where
  "is_leap y = (y mod 4 = 0 \<and> (y mod 100 \<noteq> 0 \<or> y mod 400 = 0))"

definition days_in_month :: "nat \<Rightarrow> nat \<Rightarrow> nat" where
  "days_in_month y m =
     (if m = 2 then (if is_leap y then 29 else 28)
      else if m = 4 \<or> m = 6 \<or> m = 9 \<or> m = 11 then 30 else 31)"

definition valid_date :: "date \<Rightarrow> bool" where
  "valid_date d =
     (1 \<le> year d \<and> year d \<le> 9999 \<and> 1 \<le> month d \<and> month d \<le> 12
      \<and> 1 \<le> day d \<and> day d \<le> days_in_month (year d) (month d))"

text \<open>\<^verbatim>\<open>d.replace(day=n)\<close>.\<close>

definition replace_day :: "date \<Rightarrow> nat \<Rightarrow> exn + date" where
  "replace_day d n =
     (if 1 \<le> n \<and> n \<le> days_in_month (year d) (month d) then Inr (d\<lparr>day := n\<rparr>)
      else Inl (ValueError, ''day is out of range for month''))"

text \<open>\<^verbatim>\<open>d - timedelta(days=1)\<close> and \<^verbatim>\<open>d + timedelta(days=1)\<close>, within years 1 to 9999.\<close>

definition minus_one_day :: "date \<Rightarrow> exn + date" where
  "minus_one_day d =
     (if 1 < day d then Inr (d\<lparr>day := day d - 1\<rparr>)
      else if 1 < month d
        then Inr (d\<lparr>month := month d - 1, day := days_in_month (year d) (month d - 1)\<rparr>)
      else if 1 < year d then Inr \<lparr>year = year d - 1, month = 12, day = 31\<rparr>
      else Inl (OverflowError, ''date value out of range''))"

definition plus_one_day :: "date \<Rightarrow> exn + date" where
  "plus_one_day d =
     (if day d < days_in_month (year d) (month d) then Inr (d\<lparr>day := day d + 1\<rparr>)
      else if month d < 12 then Inr (d\<lparr>month := month d + 1, day := 1\<rparr>)
      else if year d < 9999 then Inr \<lparr>year = year d + 1, month = 1, day = 1\<rparr>
      else Inl (OverflowError, ''date value out of range''))"

definition isoformat :: "date \<Rightarrow> string" where
  "isoformat d =
     zero_pad 4 (str_nat (year d)) @ ''-'' @ zero_pad 2 (str_nat (month d)) @ ''-''
       @ zero_pad 2 (str_nat (day d))"

section \<open>Configuration and the outside world\<close>

text \<open>The module-level settings read from the environment when the module is loaded.\<close>

record config =
  NEW_RELIC_LICENSE_KEY :: "string option"
  NEW_RELIC_ACCOUNT_ID :: "string option"
  TARGET_REGION :: string
  GROUP_BY_DIMENSION_KEY :: string
  GROUP_BY_TAG_KEY :: "string option"
  BEDROCK_MODEL_ID :: string
  JPY_EXCHANGE_RATE :: int

text \<open>
  The three prompts of the module are fixed texts around the serialised input data; a
  request to the model is identified by which prompt it carries and by that data.
\<close>

datatype prompt = PreviousMonthPrompt | MonthToDatePrompt | RecommendationPrompt

text \<open>
  Every effect of the module is a call to the outside: the arguments are those the
  source passes. \<open>HttpsPost\<close> carries the endpoint, the path, the headers and the events
  whose compressed JSON is the body; \<open>Sleep\<close> carries the seconds slept.
\<close>

datatype call =
    GetCostAndUsage "string \<times> string" string "string list" "(string \<times> string) list"
      "pyval option"
  | GetCostForecast "string \<times> string" string string
  | ListRecommendations string nat "pyval option"
  | InvokeModel string nat prompt pyval
  | HttpsPost string string "(string \<times> string) list" "event list"
  | Sleep real

text \<open>
  The world answers the calls: the clock, the AWS APIs (a response dictionary or an
  exception), the model (the response body or an exception), the telemetry endpoint
  (per attempt, a status or a transport error) and the random source (per attempt).
\<close>

record world =
  utcnow_date :: date
  aws_api :: "call \<Rightarrow> exn + pyval"
  invoke_model :: "call \<Rightarrow> exn + string"
  https_status :: "nat \<Rightarrow> exn + nat"
  random_uniform :: "nat \<Rightarrow> real"

section \<open>Pagination\<close>

text \<open>
  Both \<^verbatim>\<open>while True\<close> loops have one shape: build the parameters (with the token once
  there is one), call, extend the accumulated list, read the next token, stop when it is
  falsy. The loop need not terminate, so it returns an option; the log of the calls made
  is threaded through.
\<close>

definition page_step ::
  "world \<Rightarrow> (pyval \<Rightarrow> pyval list \<Rightarrow> exn + pyval list) \<Rightarrow> string \<Rightarrow> call \<Rightarrow> pyval list
     \<Rightarrow> exn + (pyval list \<times> pyval)" where
  "page_step w extend_acc token_key c acc =
     ebind (aws_api w c) (\<lambda>response.
     ebind (extend_acc response acc) (\<lambda>acc'.
     ebind (py_get response token_key PNone) (\<lambda>next_token. Inr (acc', next_token))))"

partial_function (option) page_loop ::
  "world \<Rightarrow> (pyval \<Rightarrow> pyval list \<Rightarrow> exn + pyval list) \<Rightarrow> string \<Rightarrow> (pyval option \<Rightarrow> call)
     \<Rightarrow> pyval option \<Rightarrow> call list \<Rightarrow> pyval list \<Rightarrow> (call list \<times> (exn + pyval list)) option" where
  "page_loop w extend_acc token_key params token calls acc =
     (case page_step w extend_acc token_key (params token) acc of
        Inl e \<Rightarrow> Some (calls @ [params token], Inl e)
      | Inr r \<Rightarrow>
          if py_truthy (snd r)
          then page_loop w extend_acc token_key params (Some (snd r)) (calls @ [params token]) (fst r)
          else Some (calls @ [params token], Inr (fst r)))"

declare page_loop.simps [code]

section \<open>Workflow 1: cost report\<close>

definition group_by_definitions :: "config \<Rightarrow> (string \<times> string) list" where
  "group_by_definitions cfg =
     (if GROUP_BY_DIMENSION_KEY cfg \<noteq> [] then [(''DIMENSION'', GROUP_BY_DIMENSION_KEY cfg)]
      else [])
     @ [(''DIMENSION'', ''REGION'')]
     @ (case GROUP_BY_TAG_KEY cfg of
          None \<Rightarrow> []
        | Some t \<Rightarrow> if t \<noteq> [] then [(''TAG'', t)] else [])"

text \<open>The pair \<open>(start_date, end_date_for_api)\<close> of lines 61 to 72.\<close>

definition report_window :: "date \<Rightarrow> exn + (date \<times> date)" where
  "report_window today =
     (if day today = 1 then
        ebind (replace_day today 1) (\<lambda>end_date_for_api.
        ebind (minus_one_day end_date_for_api) (\<lambda>last_month_end.
        ebind (replace_day last_month_end 1) (\<lambda>start_date.
        Inr (start_date, end_date_for_api))))
      else ebind (replace_day today 1) (\<lambda>start_date. Inr (start_date, today)))"

definition cost_params :: "config \<Rightarrow> string \<times> string \<Rightarrow> pyval option \<Rightarrow> call" where
  "cost_params cfg time_period token =
     GetCostAndUsage time_period ''MONTHLY'' [''UnblendedCost''] (group_by_definitions cfg) token"

definition extend_groups :: "pyval \<Rightarrow> pyval list \<Rightarrow> exn + pyval list" where
  "extend_groups response all_groups =
     ebind (py_get response ''ResultsByTime'' PNone) (\<lambda>results.
       if py_truthy results then
         ebind (py_item response ''ResultsByTime'') (\<lambda>r.
         ebind (py_index r 0) (\<lambda>r0.
         ebind (py_item r0 ''Groups'') (\<lambda>g.
         ebind (py_iter g) (\<lambda>gs. Inr (all_groups @ gs)))))
       else Inr all_groups)"

text \<open>
  The forecast of lines 97 to 108: only \<^verbatim>\<open>DataUnavailableException\<close> is caught, and
  leaves the forecast data empty.
\<close>

definition fetch_forecast :: "world \<Rightarrow> date \<Rightarrow> call list \<times> (exn + pyval)" where
  "fetch_forecast w today =
     (case ebind (replace_day today (days_in_month (year today) (month today))) plus_one_day of
        Inl e \<Rightarrow> ([], Inl e)
      | Inr forecast_end \<Rightarrow>
          (let c = GetCostForecast (isoformat today, isoformat forecast_end)
                     ''UNBLENDED_COST'' ''MONTHLY''
           in case aws_api w c of
                Inl e \<Rightarrow>
                  if fst e = DataUnavailableException then ([c], Inr (PList []))
                  else ([c], Inl e)
              | Inr forecast_response \<Rightarrow>
                  ([c], py_get forecast_response ''ForecastResultsByTime'' (PList []))))"

text \<open>
  \<^verbatim>\<open>float(g['Metrics']['UnblendedCost']['Amount'])\<close> of line 116, and the built-in sum
  of these floats over the groups, in the order of the list.
\<close>

definition strict_amount :: "runtime \<Rightarrow> pyval \<Rightarrow> exn + real" where
  "strict_amount rt g =
     ebind (py_item g ''Metrics'') (\<lambda>m.
     ebind (py_item m ''UnblendedCost'') (\<lambda>u.
     ebind (py_item u ''Amount'') (py_float rt)))"

definition total_cost :: "runtime \<Rightarrow> pyval list \<Rightarrow> exn + real" where
  "total_cost rt groups =
     ebind (mapM_exn (strict_amount rt) groups) (\<lambda>xs. Inr (float_sum rt xs))"

text \<open>\<^verbatim>\<open>group.get('Metrics', {}).get('UnblendedCost', {})\<close>.\<close>

definition cost_metrics :: "pyval \<Rightarrow> exn + pyval" where
  "cost_metrics grp =
     ebind (py_get grp ''Metrics'' (PDict [])) (\<lambda>m. py_get m ''UnblendedCost'' (PDict []))"

text \<open>\<^verbatim>\<open>float(group.get('Metrics', {}).get('UnblendedCost', {}).get('Amount', 0))\<close>.\<close>

definition lenient_amount :: "runtime \<Rightarrow> pyval \<Rightarrow> exn + real" where
  "lenient_amount rt grp =
     ebind (cost_metrics grp) (\<lambda>cm. ebind (py_get cm ''Amount'' (PInt 0)) (py_float rt))"

text \<open>
  One of the three positional key fields of lines 126 to 135: when the dimension is
  configured and \<^verbatim>\<open>len(keys) > key_index\<close>, the field is set from \<^verbatim>\<open>keys[key_index]\<close>
  and the index advances (the source does not advance it after the last field, where it
  is no longer read).
\<close>

definition keyed_field ::
  "bool \<Rightarrow> string \<Rightarrow> pyval \<Rightarrow> event \<times> nat \<Rightarrow> exn + (event \<times> nat)" where
  "keyed_field configured name keys st =
     (if \<not> configured then Inr st
      else ebind (py_len keys) (\<lambda>n.
        if snd st < n
        then ebind (py_index keys (snd st)) (\<lambda>v.
               Inr (AList.update name v (fst st), snd st + 1))
        else Inr st))"

definition tag_field_name :: "string \<Rightarrow> string" where
  "tag_field_name t = ''aws.tag.'' @ replace_char (CHR '':'') (CHR ''_'') (replace_char (CHR ''$'') (CHR ''_'') t)"

definition event_detail ::
  "config \<Rightarrow> runtime \<Rightarrow> string \<Rightarrow> string \<times> string \<Rightarrow> pyval \<Rightarrow> exn + event" where
  "event_detail cfg rt aws_account_id time_period grp =
     ebind (cost_metrics grp) (\<lambda>cm.
     ebind (py_get cm ''Amount'' (PInt 0)) (\<lambda>a.
     ebind (py_float rt a) (\<lambda>amount.
     ebind (py_get cm ''Unit'' (PStr ''USD'')) (\<lambda>unit.
     ebind (py_get grp ''Keys'' (PList [])) (\<lambda>keys.
     ebind (keyed_field (GROUP_BY_DIMENSION_KEY cfg \<noteq> [])
              (''aws.'' @ to_camel_case (GROUP_BY_DIMENSION_KEY cfg)) keys
              ([(''eventType'', PStr ''AwsCostReport''), (''recordType'', PStr ''detail''),
                (''aws.accountId'', PStr aws_account_id),
                (''aws.lambdaRegion'', PStr (TARGET_REGION cfg)),
                (''period.start'', PStr (fst time_period)),
                (''period.end'', PStr (snd time_period)),
                (''cost.unblended'', PFloat amount), (''cost.currency'', unit)], 0)) (\<lambda>st1.
     ebind (keyed_field True ''aws.region'' keys st1) (\<lambda>st2.
     ebind (case GROUP_BY_TAG_KEY cfg of
              None \<Rightarrow> Inr st2
            | Some t \<Rightarrow> keyed_field (t \<noteq> []) (tag_field_name t) keys st2) (\<lambda>st3.
     Inr (fst st3)))))))))"

definition forecast_amount :: "runtime \<Rightarrow> pyval \<Rightarrow> exn + real" where
  "forecast_amount rt forecast_data =
     (if py_truthy forecast_data
      then ebind (py_index forecast_data 0) (\<lambda>f0.
           ebind (py_get f0 ''MeanValue'' (PFloat 0)) (py_float rt))
      else Inr 0)"

definition summary_event :: "config \<Rightarrow> string \<Rightarrow> string \<times> string \<Rightarrow> real \<Rightarrow> real \<Rightarrow> event" where
  "summary_event cfg aws_account_id time_period total_usd forecast =
     [(''eventType'', PStr ''AwsCostReport''), (''recordType'', PStr ''summary''),
      (''aws.accountId'', PStr aws_account_id),
      (''aws.lambdaRegion'', PStr (TARGET_REGION cfg)),
      (''period.start'', PStr (fst time_period)), (''period.end'', PStr (snd time_period)),
      (''cost.totalUnblended'', PFloat total_usd), (''cost.monthlyForecast'', PFloat forecast)]"

text \<open>
  \<^verbatim>\<open>sorted(all_groups, key=..., reverse=True)[:5]\<close>: the keys are computed first, in
  list order; the sort is stable, also with \<^verbatim>\<open>reverse=True\<close>.
\<close>

definition top_5_groups :: "runtime \<Rightarrow> pyval list \<Rightarrow> exn + pyval list" where
  "top_5_groups rt all_groups =
     ebind (mapM_exn (lenient_amount rt) all_groups) (\<lambda>ks.
       Inr (take 5 (map snd (sort_key (\<lambda>p. - fst p) (zip ks all_groups)))))"

definition driver :: "config \<Rightarrow> runtime \<Rightarrow> pyval \<Rightarrow> exn + pyval" where
  "driver cfg rt grp =
     ebind (lenient_amount rt grp) (\<lambda>cost_usd.
     ebind (py_get grp ''Keys'' (PList [])) (\<lambda>keys.
       Inr (PDict [(''group'', keys), (''cost_usd'', PFloat cost_usd),
                   (''cost_jpy'',
                      PInt (py_round (float_mul_int rt cost_usd (JPY_EXCHANGE_RATE cfg))))])))"

definition top_cost_drivers :: "config \<Rightarrow> runtime \<Rightarrow> pyval list \<Rightarrow> exn + pyval list" where
  "top_cost_drivers cfg rt all_groups =
     ebind (top_5_groups rt all_groups) (mapM_exn (driver cfg rt))"

definition cost_bedrock_input ::
  "config \<Rightarrow> runtime \<Rightarrow> string \<Rightarrow> string \<times> string \<Rightarrow> real \<Rightarrow> real \<Rightarrow> pyval list
     \<Rightarrow> pyval" where
  "cost_bedrock_input cfg rt aws_account_id time_period total_usd forecast drivers =
     PDict [(''aws_account_id'', PStr aws_account_id),
            (''period'', PDict [(''Start'', PStr (fst time_period)),
                                (''End'', PStr (snd time_period))]),
            (''cost'', PDict
               [(''total_unblended_usd'', PFloat total_usd),
                (''monthly_forecast_usd'', PFloat forecast),
                (''total_unblended_jpy'',
                   PInt (py_round (float_mul_int rt total_usd (JPY_EXCHANGE_RATE cfg)))),
                (''monthly_forecast_jpy'',
                   PInt (py_round (float_mul_int rt forecast (JPY_EXCHANGE_RATE cfg))))]),
            (''top_cost_drivers'', PList drivers),
            (''monthly_budget'', PDict [(''amount'', PInt 10000), (''currency'', PStr ''JPY'')])]"

section \<open>Narrative enrichment\<close>

text \<open>\<^verbatim>\<open>raw_text[raw_text.find("{"):raw_text.rfind("}") + 1]\<close>; only a string has the methods.\<close>

definition extract_json :: "pyval \<Rightarrow> exn + string" where
  "extract_json raw_text =
     (case raw_text of
        PStr s \<Rightarrow> Inr (py_slice s (find_char (CHR ''{'') s) (rfind_char (CHR ''}'') s + 1))
      | _ \<Rightarrow> Inl (no_attribute raw_text ''find''))"

text \<open>
  The body of the \<^verbatim>\<open>try\<close> block: first \<open>raw_text\<close>, read from the response body,
  then the items of the object parsed from it, which are merged.
\<close>

definition raw_text :: "runtime \<Rightarrow> world \<Rightarrow> call \<Rightarrow> exn + pyval" where
  "raw_text rt w c =
     ebind (invoke_model w c) (\<lambda>body.
     ebind (json_loads rt body) (\<lambda>response_body.
     ebind (py_get response_body ''content'' (PList [PDict []])) (\<lambda>content.
     ebind (py_index content 0) (\<lambda>first.
     py_get first ''text'' (PStr ''{}'')))))"

definition analysis_result :: "runtime \<Rightarrow> world \<Rightarrow> call \<Rightarrow> exn + (string \<times> pyval) list" where
  "analysis_result rt w c =
     ebind (raw_text rt w c) (\<lambda>t.
     ebind (extract_json t) (\<lambda>s.
     ebind (json_loads rt s) py_items))"

text \<open>
  The whole \<^verbatim>\<open>try\<close>/\<^verbatim>\<open>except Exception\<close>: the summary event with the analysis merged
  in, or with the error text. Nothing is raised.
\<close>

definition add_analysis :: "runtime \<Rightarrow> world \<Rightarrow> call \<Rightarrow> event \<Rightarrow> event" where
  "add_analysis rt w c summary =
     (case analysis_result rt w c of
        Inr items \<Rightarrow> foldl (\<lambda>ev p. AList.update (''analysis.'' @ fst p) (snd p) ev) summary items
      | Inl e \<Rightarrow> AList.update ''analysis.error'' (PStr (snd e)) summary)"

section \<open>Workflow 1, continued: from the fetched data to the events\<close>

definition cost_events ::
  "config \<Rightarrow> runtime \<Rightarrow> world \<Rightarrow> string \<Rightarrow> bool \<Rightarrow> string \<times> string \<Rightarrow> pyval list \<Rightarrow> pyval
     \<Rightarrow> call list \<times> (exn + event list)" where
  "cost_events cfg rt w aws_account_id is_first_of_month time_period all_groups forecast_data =
     (if all_groups = [] \<and> \<not> py_truthy forecast_data then ([], Inr [])
      else if all_groups = [] then ([], Inl (IndexError, ''list index out of range''))
      else
        (case ebind (total_cost rt all_groups) (\<lambda>total_usd.
              ebind (mapM_exn (event_detail cfg rt aws_account_id time_period) all_groups)
                (\<lambda>events.
              ebind (forecast_amount rt forecast_data) (\<lambda>forecast.
              ebind (top_cost_drivers cfg rt all_groups) (\<lambda>drivers.
              Inr (total_usd, events, forecast, drivers))))) of
           Inl e \<Rightarrow> ([], Inl e)
         | Inr (total_usd, events, forecast, drivers) \<Rightarrow>
             (let c = InvokeModel (BEDROCK_MODEL_ID cfg) 1024
                        (if is_first_of_month then PreviousMonthPrompt else MonthToDatePrompt)
                        (cost_bedrock_input cfg rt aws_account_id time_period total_usd forecast
                           drivers)
              in ([c], Inr (events @ [add_analysis rt w c
                    (summary_event cfg aws_account_id time_period total_usd forecast)])))))"

definition run_cost_explorer_workflow ::
  "config \<Rightarrow> runtime \<Rightarrow> world \<Rightarrow> string \<Rightarrow> (call list \<times> (exn + event list)) option" where
  "run_cost_explorer_workflow cfg rt w aws_account_id =
     (let today = utcnow_date w; is_first_of_month = (day today = 1)
      in case report_window today of
           Inl e \<Rightarrow> Some ([], Inl e)
         | Inr win \<Rightarrow>
             (let time_period = (isoformat (fst win), isoformat (snd win))
              in case page_loop w extend_groups ''NextPageToken'' (cost_params cfg time_period)
                        None [] [] of
                   None \<Rightarrow> None
                 | Some (log1, Inl e) \<Rightarrow> Some (log1, Inl e)
                 | Some (log1, Inr all_groups) \<Rightarrow>
                     (case (if is_first_of_month then ([], Inr (PList []))
                            else fetch_forecast w today) of
                        (log2, Inl e) \<Rightarrow> Some (log1 @ log2, Inl e)
                      | (log2, Inr forecast_data) \<Rightarrow>
                          (case cost_events cfg rt w aws_account_id is_first_of_month
                                  time_period all_groups forecast_data of
                             (log3, r) \<Rightarrow> Some (log1 @ log2 @ log3, r)))))"

section \<open>Workflow 2: recommendations\<close>

definition rec_params :: "string \<Rightarrow> pyval option \<Rightarrow> call" where
  "rec_params aws_account_id token = ListRecommendations aws_account_id 100 token"

definition extend_items :: "pyval \<Rightarrow> pyval list \<Rightarrow> exn + pyval list" where
  "extend_items response all_recommendations =
     ebind (py_get response ''items'' (PList [])) (\<lambda>items.
     ebind (py_iter items) (\<lambda>xs. Inr (all_recommendations @ xs)))"

text \<open>The variables that the loop of lines 240 to 264 updates.\<close>

record rec_state =
  total_savings :: real
  recommendations_by_type :: "(string \<times> int) list"
  events :: "event list"
  bedrock_recommendation_summary_list :: "pyval list"

text \<open>\<^verbatim>\<open>str(rec.get(k, ''))\<close>.\<close>

definition rec_str :: "runtime \<Rightarrow> pyval \<Rightarrow> string \<Rightarrow> exn + string" where
  "rec_str rt rcm k = ebind (py_get rcm k (PStr [])) (\<lambda>v. Inr (py_str rt v))"

text \<open>The dictionary display of lines 246 to 254; its values are evaluated in order.\<close>

definition detail_event ::
  "runtime \<Rightarrow> string \<Rightarrow> pyval \<Rightarrow> string \<Rightarrow> real \<Rightarrow> exn + event" where
  "detail_event rt aws_account_id rcm resource_type estimated_savings_usd =
     ebind (rec_str rt rcm ''region'') (\<lambda>region.
     ebind (rec_str rt rcm ''recommendationId'') (\<lambda>recommendation_id.
     ebind (rec_str rt rcm ''resourceId'') (\<lambda>resource_id.
     ebind (rec_str rt rcm ''resourceArn'') (\<lambda>resource_arn.
     ebind (rec_str rt rcm ''currentResourceSummary'') (\<lambda>current_summary.
     ebind (rec_str rt rcm ''recommendedResourceSummary'') (\<lambda>recommended_summary.
     ebind (rec_str rt rcm ''actionType'') (\<lambda>action_type.
     ebind (rec_str rt rcm ''implementationEffort'') (\<lambda>effort.
     ebind (rec_str rt rcm ''source'') (\<lambda>source.
     ebind (py_get rcm ''estimatedSavingsPercentage'' (PInt 0)) (\<lambda>p.
     ebind (py_float rt p) (\<lambda>percentage.
       Inr [(''eventType'', PStr ''AwsOptimizationReport''), (''recordType'', PStr ''detail''),
            (''aws.accountId'', PStr aws_account_id), (''aws.region'', PStr region),
            (''aws.recommendationId'', PStr recommendation_id),
            (''aws.currentResourceType'', PStr resource_type),
            (''aws.currentResourceId'', PStr resource_id),
            (''aws.currentResourceArn'', PStr resource_arn),
            (''aws.currentResourceSummary'', PStr current_summary),
            (''aws.recommendedResourceSummary'', PStr recommended_summary),
            (''aws.implementationActionType'', PStr action_type),
            (''aws.implementationEffort'', PStr effort),
            (''aws.analysisSource'', PStr source),
            (''cost.estimatedMonthlySavings'', PFloat estimated_savings_usd),
            (''cost.estimatedSavingsPercentage'', PFloat percentage)])))))))))))"

definition bedrock_entry ::
  "config \<Rightarrow> runtime \<Rightarrow> pyval \<Rightarrow> string \<Rightarrow> real \<Rightarrow> exn + pyval" where
  "bedrock_entry cfg rt rcm resource_type estimated_savings_usd =
     ebind (rec_str rt rcm ''actionType'') (\<lambda>action_type.
     ebind (rec_str rt rcm ''implementationEffort'') (\<lambda>effort.
       Inr (PDict [(''resourceType'', PStr resource_type), (''action'', PStr action_type),
                   (''estimatedSavingsUsd'', PFloat estimated_savings_usd),
                   (''estimatedSavingsJpy'',
                      PInt (py_round (float_mul_int rt estimated_savings_usd
                                        (JPY_EXCHANGE_RATE cfg)))),
                   (''implementationEffort'', PStr effort)])))"

text \<open>
  The body of the \<^verbatim>\<open>try\<close> block for one record. An exception leaves the variables as
  the statements before it have set them, so it is returned with the state reached.
\<close>

definition try_rec ::
  "config \<Rightarrow> runtime \<Rightarrow> string \<Rightarrow> rec_state \<Rightarrow> pyval \<Rightarrow> (exn \<times> rec_state) + rec_state" where
  "try_rec cfg rt aws_account_id st rcm =
     (case ebind (py_get rcm ''estimatedMonthlySavings'' (PInt 0)) (py_float rt) of
        Inl e \<Rightarrow> Inl (e, st)
      | Inr estimated_savings_usd \<Rightarrow>
          (let st1 = st\<lparr>total_savings :=
                            float_add rt (total_savings st) estimated_savings_usd\<rparr>
           in case ebind (py_get rcm ''currentResourceType'' (PStr ''Unknown''))
                     (\<lambda>v. Inr (py_str rt v)) of
                Inl e \<Rightarrow> Inl (e, st1)
              | Inr resource_type \<Rightarrow>
                  (let st2 = st1\<lparr>recommendations_by_type :=
                               AList.update resource_type
                                 ((case map_of (recommendations_by_type st1) resource_type of
                                     Some n \<Rightarrow> n | None \<Rightarrow> 0) + 1)
                                 (recommendations_by_type st1)\<rparr>
                   in case detail_event rt aws_account_id rcm resource_type
                             estimated_savings_usd of
                        Inl e \<Rightarrow> Inl (e, st2)
                      | Inr ev \<Rightarrow>
                          (let st3 = st2\<lparr>events := events st2 @ [ev]\<rparr>
                           in case bedrock_entry cfg rt rcm resource_type
                                     estimated_savings_usd of
                                Inl e \<Rightarrow> Inl (e, st3)
                              | Inr b \<Rightarrow>
                                  Inr (st3\<lparr>bedrock_recommendation_summary_list :=
                                        bedrock_recommendation_summary_list st3 @ [b]\<rparr>)))))"

text \<open>
  The loop with its \<^verbatim>\<open>except (ValueError, TypeError)\<close>: such an exception is logged and
  the loop continues with the next record; any other exception leaves the function.
\<close>

fun rec_loop ::
  "config \<Rightarrow> runtime \<Rightarrow> string \<Rightarrow> rec_state \<Rightarrow> pyval list \<Rightarrow> exn + rec_state" where
  "rec_loop cfg rt aws_account_id st [] = Inr st"
| "rec_loop cfg rt aws_account_id st (rcm # rest) =
     (case try_rec cfg rt aws_account_id st rcm of
        Inr st' \<Rightarrow> rec_loop cfg rt aws_account_id st' rest
      | Inl (e, st') \<Rightarrow>
          if fst e = ValueError \<or> fst e = TypeError
          then rec_loop cfg rt aws_account_id st' rest
          else Inl e)"

definition rec_summary_event ::
  "config \<Rightarrow> runtime \<Rightarrow> string \<Rightarrow> pyval list \<Rightarrow> rec_state \<Rightarrow> event" where
  "rec_summary_event cfg rt aws_account_id all_recommendations st =
     [(''eventType'', PStr ''AwsOptimizationReport''), (''recordType'', PStr ''summary''),
      (''aws.accountId'', PStr aws_account_id),
      (''aws.lambdaRegion'', PStr (TARGET_REGION cfg)),
      (''recommendation.totalCount'', PInt (int (length all_recommendations))),
      (''cost.totalEstimatedSavings'', PFloat (total_savings st)),
      (''cost.totalEstimatedSavingsJpy'',
         PInt (py_round (float_mul_int rt (total_savings st) (JPY_EXCHANGE_RATE cfg)))),
      (''recommendation.countByType'',
         PStr (json_dumps rt
                (PDict (map (\<lambda>p. (fst p, PInt (snd p))) (recommendations_by_type st)))))]"

definition rec_bedrock_input :: "event \<Rightarrow> rec_state \<Rightarrow> pyval" where
  "rec_bedrock_input summary st =
     PDict [(''totalRecommendations'',
               (case map_of summary ''recommendation.totalCount'' of
                  Some v \<Rightarrow> v | None \<Rightarrow> PNone)),
            (''totalEstimatedSavingsUsd'',
               (case map_of summary ''cost.totalEstimatedSavings'' of
                  Some v \<Rightarrow> v | None \<Rightarrow> PNone)),
            (''totalEstimatedSavingsJpy'',
               (case map_of summary ''cost.totalEstimatedSavingsJpy'' of
                  Some v \<Rightarrow> v | None \<Rightarrow> PNone)),
            (''allRecommendationsSummary'', PList (bedrock_recommendation_summary_list st))]"

text \<open>The variables as lines 233 and 237 to 239 initialise them.\<close>

definition initial_rec_state :: rec_state where
  "initial_rec_state =
     \<lparr>total_savings = 0, recommendations_by_type = [], events = [],
      bedrock_recommendation_summary_list = []\<rparr>"

definition rec_events ::
  "config \<Rightarrow> runtime \<Rightarrow> world \<Rightarrow> string \<Rightarrow> pyval list \<Rightarrow> call list \<times> (exn + event list)" where
  "rec_events cfg rt w aws_account_id all_recommendations =
     (if all_recommendations = [] then ([], Inr [])
      else
        (case rec_loop cfg rt aws_account_id initial_rec_state all_recommendations of
           Inl e \<Rightarrow> ([], Inl e)
         | Inr st \<Rightarrow>
             (let summary = rec_summary_event cfg rt aws_account_id all_recommendations st;
                  c = InvokeModel (BEDROCK_MODEL_ID cfg) 4096 RecommendationPrompt
                        (rec_bedrock_input summary st)
              in ([c], Inr (events st @ [add_analysis rt w c summary])))))"

definition run_recommendation_workflow ::
  "config \<Rightarrow> runtime \<Rightarrow> world \<Rightarrow> string \<Rightarrow> (call list \<times> (exn + event list)) option" where
  "run_recommendation_workflow cfg rt w aws_account_id =
     (case page_loop w extend_items ''nextToken'' (rec_params aws_account_id) None [] [] of
        None \<Rightarrow> None
      | Some (log1, Inl e) \<Rightarrow> Some (log1, Inl e)
      | Some (log1, Inr all_recommendations) \<Rightarrow>
          (case rec_events cfg rt w aws_account_id all_recommendations of
             (log2, r) \<Rightarrow> Some (log1 @ log2, r)))"

section \<open>Sending the events\<close>

text \<open>
  The \<^verbatim>\<open>for attempt in range(3)\<close> loop over the remaining attempt indices: a status in
  [200, 300) returns; any other status and any exception is followed by the sleep and the
  next iteration; the exhausted loop raises.
\<close>

fun send_attempts :: "world \<Rightarrow> call \<Rightarrow> nat list \<Rightarrow> call list \<times> (exn + unit)" where
  "send_attempts w post [] =
     ([], Inl (PlainException, ''Failed to send events to New Relic after all retries.''))"
| "send_attempts w post (attempt # rest) =
     (if (case https_status w attempt of
            Inr status \<Rightarrow> 200 \<le> status \<and> status < 300
          | Inl e \<Rightarrow> False)
      then ([post], Inr ())
      else (case send_attempts w post rest of
              (calls, r) \<Rightarrow>
                (post # Sleep (1 * 2 ^ attempt + random_uniform w attempt) # calls, r)))"

definition send_to_new_relic :: "config \<Rightarrow> world \<Rightarrow> event list \<Rightarrow> call list \<times> (exn + unit)" where
  "send_to_new_relic cfg w evs =
     (if evs = [] then ([], Inr ())
      else
        (case NEW_RELIC_LICENSE_KEY cfg of
           None \<Rightarrow> ([], Inl (no_attribute PNone ''startswith''))
         | Some key \<Rightarrow>
             (let headers = [(''Content-Type'', ''application/json''), (''Api-Key'', key),
                             (''Content-Encoding'', ''gzip'')];
                  endpoint = (if startswith key ''eu'' then ''insights-collector.eu01.nr-data.net''
                              else ''insights-collector.newrelic.com'');
                  url = ''/v1/accounts/''
                        @ (case NEW_RELIC_ACCOUNT_ID cfg of None \<Rightarrow> ''None'' | Some a \<Rightarrow> a)
                        @ ''/events''
              in send_attempts w (HttpsPost endpoint url headers evs) [0, 1, 2])))"

section \<open>The handler\<close>

record response =
  statusCode :: nat
  body :: string

definition configured :: "string option \<Rightarrow> bool" where
  "configured v = (case v of None \<Rightarrow> False | Some s \<Rightarrow> s \<noteq> [])"

definition finished :: "runtime \<Rightarrow> event list \<Rightarrow> response" where
  "finished rt all_events_to_send =
     \<lparr>statusCode = 200,
      body = json_dumps rt (PDict [(''message'',
               PStr (''Processing complete. Total events generated: ''
                     @ str_nat (length all_events_to_send)))])\<rparr>"

text \<open>What a workflow adds to \<^verbatim>\<open>all_events_to_send\<close>: nothing when it raised.\<close>

definition events_or_none :: "exn + event list \<Rightarrow> event list" where
  "events_or_none r = (case r of Inl e \<Rightarrow> [] | Inr evs \<Rightarrow> evs)"

definition lambda_handler ::
  "config \<Rightarrow> runtime \<Rightarrow> world \<Rightarrow> string \<Rightarrow> (call list \<times> (exn + response)) option" where
  "lambda_handler cfg rt w invoked_function_arn =
     (if \<not> configured (NEW_RELIC_LICENSE_KEY cfg) \<or> \<not> configured (NEW_RELIC_ACCOUNT_ID cfg)
      then Some ([], Inr \<lparr>statusCode = 500, body = ''Missing New Relic configuration.''\<rparr>)
      else
        (case py_index (PList (map PStr (split_on (CHR '':'') invoked_function_arn))) 4 of
           Inl e \<Rightarrow> Some ([], Inl e)
         | Inr arn_part \<Rightarrow>
             (let aws_account_id = (case arn_part of PStr s \<Rightarrow> s | _ \<Rightarrow> [])
              in case run_cost_explorer_workflow cfg rt w aws_account_id of
                   None \<Rightarrow> None
                 | Some (log1, r1) \<Rightarrow>
                     (case run_recommendation_workflow cfg rt w aws_account_id of
                        None \<Rightarrow> None
                      | Some (log2, r2) \<Rightarrow>
                          (let all_events_to_send = events_or_none r1 @ events_or_none r2
                           in if all_events_to_send \<noteq> []
                              then (case send_to_new_relic cfg w all_events_to_send of
                                      (log3, Inl e) \<Rightarrow> Some (log1 @ log2 @ log3, Inl e)
                                    | (log3, Inr u) \<Rightarrow>
                                        Some (log1 @ log2 @ log3,
                                              Inr (finished rt all_events_to_send)))
                              else Some (log1 @ log2, Inr (finished rt all_events_to_send)))))))"

section \<open>Notions used in the statements\<close>

text \<open>The calendar notions of the claims, stated without the date arithmetic of the code.\<close>

definition first_of_month :: "date \<Rightarrow> date" where
  "first_of_month d = d\<lparr>day := 1\<rparr>"

definition first_of_previous_month :: "date \<Rightarrow> date" where
  "first_of_previous_month d =
     (if month d = 1 then \<lparr>year = year d - 1, month = 12, day = 1\<rparr>
      else \<lparr>year = year d, month = month d - 1, day = 1\<rparr>)"

fun is_forecast_call :: "call \<Rightarrow> bool" where
  "is_forecast_call (GetCostForecast tp m g) = True"
| "is_forecast_call c = False"

fun cost_call_period :: "call \<Rightarrow> (string \<times> string) option" where
  "cost_call_period (GetCostAndUsage tp g m gb tok) = Some tp"
| "cost_call_period c = None"

section \<open>Reading the produced events\<close>

definition is_detail :: "event \<Rightarrow> bool" where
  "is_detail ev = (map_of ev ''recordType'' = Some (PStr ''detail''))"

definition is_summary :: "event \<Rightarrow> bool" where
  "is_summary ev = (map_of ev ''recordType'' = Some (PStr ''summary''))"

text \<open>The events a workflow run hands back: none when it raised or did not return.\<close>

definition returned_events :: "(call list \<times> (exn + event list)) option \<Rightarrow> event list" where
  "returned_events run =
     (case run of Some (calls, Inr evs) \<Rightarrow> evs | _ \<Rightarrow> [])"

section \<open>A concrete scenario\<close>

text \<open>
  The end-to-end scenario of the specification: account \<open>123456789012\<close>, one cost group
  (EC2, us-east-1, amount 10.00 USD), rate 150, no forecast available, a model that answers
  with a JSON object embedded in prose, a telemetry endpoint that accepts.
\<close>

definition scenario_cfg :: config where
  "scenario_cfg =
     \<lparr>NEW_RELIC_LICENSE_KEY = Some ''key'', NEW_RELIC_ACCOUNT_ID = Some ''42'',
      TARGET_REGION = ''us-east-1'', GROUP_BY_DIMENSION_KEY = ''SERVICE'',
      GROUP_BY_TAG_KEY = None, BEDROCK_MODEL_ID = ''model'', JPY_EXCHANGE_RATE = 150\<rparr>"

definition scenario_text :: string where
  \<open>scenario_text = ''Report: {"x":1} Regards''\<close>

text \<open>A response text whose prose has braces of its own before the JSON object.\<close>

definition braces_text :: string where
  \<open>braces_text = ''See {note}: {"x":1}''\<close>

text \<open>
  The doubles that \<^verbatim>\<open>float('0.1')\<close> and \<^verbatim>\<open>float('0.2')\<close> denote, and the double that
  is their sum in IEEE arithmetic (0.30000000000000004); it is not their sum as reals.
\<close>

definition double_0_1 :: real where
  "double_0_1 = 3602879701896397 / 36028797018963968"

definition double_0_2 :: real where
  "double_0_2 = 3602879701896397 / 18014398509481984"

definition double_0_1_plus_0_2 :: real where
  "double_0_1_plus_0_2 = 1351079888211149 / 4503599627370496"

text \<open>
  The runtime of the scenarios. Its float arithmetic is that of the reals except for the
  sum of the doubles 0.1 and 0.2, where it rounds as IEEE arithmetic does; on the other
  values that the scenarios add or multiply, the exact result is a double, so both agree.
\<close>

definition scenario_rt :: runtime where
  \<open>scenario_rt =
     \<lparr>float_of_str = map_of [(''10.00'', 10), (''2.50'', 5 / 2), (''0.1'', double_0_1),
                             (''0.2'', double_0_2)],
      float_of_int = (\<lambda>i. Some (of_int i)),
      float_sum = (\<lambda>xs. if xs = [double_0_1, double_0_2] then double_0_1_plus_0_2
                        else sum_list xs),
      float_add = (\<lambda>a b. a + b),
      float_mul_int = (\<lambda>a i. a * of_int i),
      json_loads = (\<lambda>s.
        if s = ''body'' then Inr (PDict [(''content'', PList [PDict [(''text'', PStr scenario_text)]])])
        else if s = ''body2'' then Inr (PDict [(''content'', PList [PDict [(''text'', PStr braces_text)]])])
        else if s = ''{"x":1}'' then Inr (PDict [(''x'', PInt 1)])
        else Inl (ValueError, ''Expecting value'')),
      json_dumps = (\<lambda>v. ''json''),
      repr = (\<lambda>v. ''repr'')\<rparr>\<close>

definition scenario_group :: pyval where
  "scenario_group =
     PDict [(''Keys'', PList [PStr ''EC2'', PStr ''us-east-1'']),
            (''Metrics'', PDict [(''UnblendedCost'',
               PDict [(''Amount'', PStr ''10.00''), (''Unit'', PStr ''USD'')])])]"

fun scenario_api :: "call \<Rightarrow> exn + pyval" where
  "scenario_api (GetCostAndUsage tp g m gb tok) =
     Inr (PDict [(''ResultsByTime'', PList [PDict [(''Groups'', PList [scenario_group])]])])"
| "scenario_api (GetCostForecast tp m g) = Inl (DataUnavailableException, ''no forecast'')"
| "scenario_api (ListRecommendations a n tok) = Inr (PDict [(''items'', PList [])])"
| "scenario_api c = Inl (ClientError, ''unknown operation'')"

definition scenario_world :: "date \<Rightarrow> world" where
  "scenario_world d =
     \<lparr>utcnow_date = d, aws_api = scenario_api, invoke_model = (\<lambda>c. Inr ''body''),
      https_status = (\<lambda>n. Inr 200), random_uniform = (\<lambda>n. 1 / 2)\<rparr>"

definition braces_world :: world where
  "braces_world =
     (scenario_world \<lparr>year = 2025, month = 7, day = 4\<rparr>)\<lparr>invoke_model := (\<lambda>c. Inr ''body2'')\<rparr>"

definition scenario_call :: call where
  "scenario_call = InvokeModel ''model'' 1024 MonthToDatePrompt PNone"

definition scenario_detail :: "string \<Rightarrow> string \<Rightarrow> event" where
  "scenario_detail start end_excl =
     [(''eventType'', PStr ''AwsCostReport''), (''recordType'', PStr ''detail''),
      (''aws.accountId'', PStr ''123456789012''), (''aws.lambdaRegion'', PStr ''us-east-1''),
      (''period.start'', PStr start), (''period.end'', PStr end_excl),
      (''cost.unblended'', PFloat 10), (''cost.currency'', PStr ''USD''),
      (''aws.service'', PStr ''EC2''), (''aws.region'', PStr ''us-east-1'')]"

definition scenario_summary :: "string \<Rightarrow> string \<Rightarrow> event" where
  "scenario_summary start end_excl =
     [(''eventType'', PStr ''AwsCostReport''), (''recordType'', PStr ''summary''),
      (''aws.accountId'', PStr ''123456789012''), (''aws.lambdaRegion'', PStr ''us-east-1''),
      (''period.start'', PStr start), (''period.end'', PStr end_excl),
      (''cost.totalUnblended'', PFloat 10), (''cost.monthlyForecast'', PFloat 0),
      (''analysis.x'', PInt 1)]"

text \<open>
  Recommendation records for the scenario: a well-formed one, one whose
  \<open>estimatedMonthlySavings\<close> cannot be converted, and one whose
  \<open>estimatedSavingsPercentage\<close> cannot.
\<close>

definition good_rec :: pyval where
  "good_rec =
     PDict [(''recommendationId'', PStr ''r-1''), (''region'', PStr ''us-east-1''),
            (''currentResourceType'', PStr ''EbsVolume''), (''actionType'', PStr ''Delete''),
            (''implementationEffort'', PStr ''Low''),
            (''estimatedMonthlySavings'', PFloat 8), (''estimatedSavingsPercentage'', PFloat 50)]"


definition bad_percentage_rec :: pyval where
  "bad_percentage_rec =
     PDict [(''recommendationId'', PStr ''r-3''), (''region'', PStr ''us-east-1''),
            (''currentResourceType'', PStr ''Ec2Instance''), (''actionType'', PStr ''Rightsize''),
            (''implementationEffort'', PStr ''Medium''),
            (''estimatedMonthlySavings'', PFloat 10),
            (''estimatedSavingsPercentage'', PStr ''n/a'')]"

text \<open>The scenario with the recommendation source returning one page of the given items.\<close>

definition items_world :: "pyval list \<Rightarrow> world" where
  "items_world items =
     (scenario_world \<lparr>year = 2025, month = 7, day = 4\<rparr>)
       \<lparr>aws_api := (\<lambda>c. case c of
            ListRecommendations a n tok \<Rightarrow> Inr (PDict [(''items'', PList items)])
          | _ \<Rightarrow> scenario_api c)\<rparr>"

text \<open>What a driver entry says: its \<open>cost_usd\<close> and its \<open>group\<close>.\<close>

definition driver_cost :: "pyval \<Rightarrow> real option" where
  "driver_cost d =
     (case d of
        PDict kv \<Rightarrow> (case map_of kv ''cost_usd'' of Some (PFloat r) \<Rightarrow> Some r | _ \<Rightarrow> None)
      | _ \<Rightarrow> None)"

definition driver_group :: "pyval \<Rightarrow> pyval option" where
  "driver_group d = (case d of PDict kv \<Rightarrow> map_of kv ''group'' | _ \<Rightarrow> None)"

text \<open>A cost group as the cost source returns it, and three groups with a tie.\<close>

definition cost_group :: "string list \<Rightarrow> string \<Rightarrow> pyval" where
  "cost_group ks amount =
     PDict [(''Keys'', PList (map PStr ks)),
            (''Metrics'', PDict [(''UnblendedCost'',
               PDict [(''Amount'', PStr amount), (''Unit'', PStr ''USD'')])])]"

definition three_groups :: "pyval list" where
  "three_groups =
     [cost_group [''S3'', ''us-east-1''] ''2.50'', cost_group [''EC2'', ''us-east-1''] ''10.00'',
      cost_group [''RDS'', ''eu-west-1''] ''2.50'']"

section \<open>Reading the call log of the sender\<close>

text \<open>Whether the attempt with a given index meets a status in [200, 300).\<close>

definition attempt_ok :: "world \<Rightarrow> nat \<Rightarrow> bool" where
  "attempt_ok w i =
     (case https_status w i of Inr status \<Rightarrow> 200 \<le> status \<and> status < 300 | Inl e \<Rightarrow> False)"

fun is_post :: "call \<Rightarrow> bool" where
  "is_post (HttpsPost ep url hs evs) = True"
| "is_post c = False"

fun sleeps :: "call list \<Rightarrow> real list" where
  "sleeps [] = []"
| "sleeps (Sleep s # cs) = s # sleeps cs"
| "sleeps (c # cs) = sleeps cs"

text \<open>The request that the sender repeats.\<close>

definition post_request :: "config \<Rightarrow> string \<Rightarrow> event list \<Rightarrow> call" where
  "post_request cfg key evs =
     HttpsPost
       (if startswith key ''eu'' then ''insights-collector.eu01.nr-data.net''
        else ''insights-collector.newrelic.com'')
       (''/v1/accounts/'' @ (case NEW_RELIC_ACCOUNT_ID cfg of None \<Rightarrow> ''None'' | Some a \<Rightarrow> a)
          @ ''/events'')
       [(''Content-Type'', ''application/json''), (''Api-Key'', key),
        (''Content-Encoding'', ''gzip'')]
       evs"

text \<open>
  Worlds for the sender: one that answers 503 and then 200, one that never accepts (a
  status 500, a transport error, a status 301).
\<close>

definition retry_world :: world where
  "retry_world =
     (scenario_world \<lparr>year = 2025, month = 7, day = 4\<rparr>)
       \<lparr>https_status := (\<lambda>n. if n = 0 then Inr 503 else Inr 200)\<rparr>"

definition failing_world :: world where
  "failing_world =
     (scenario_world \<lparr>year = 2025, month = 7, day = 4\<rparr>)
       \<lparr>https_status := (\<lambda>n. if n = 0 then Inr 500
                             else if n = 1 then Inl (ClientError, ''timed out'')
                             else Inr 301)\<rparr>"

text \<open>
  A world where the cost source is down while the recommendation source returns one
  well-formed record, and the ARN the handler is invoked with.
\<close>

definition cost_down_world :: world where
  "cost_down_world =
     (scenario_world \<lparr>year = 2025, month = 7, day = 4\<rparr>)
       \<lparr>aws_api := (\<lambda>c. case c of
            GetCostAndUsage tp g m gb tok \<Rightarrow> Inl (ClientError, ''AccessDeniedException'')
          | ListRecommendations a n tok \<Rightarrow> Inr (PDict [(''items'', PList [good_rec])])
          | _ \<Rightarrow> scenario_api c)\<rparr>"

text \<open>A world where the cost source has no group for the window and no forecast.\<close>

definition no_data_world :: world where
  "no_data_world =
     (scenario_world \<lparr>year = 2025, month = 7, day = 4\<rparr>)
       \<lparr>aws_api := (\<lambda>c. case c of
            GetCostAndUsage tp g m gb tok \<Rightarrow> Inr (PDict [(''ResultsByTime'', PList [])])
          | _ \<Rightarrow> scenario_api c)\<rparr>"

text \<open>A world where the cost source returns two groups, with the amounts 0.1 and 0.2.\<close>

definition rounding_world :: world where
  "rounding_world =
     (scenario_world \<lparr>year = 2025, month = 7, day = 4\<rparr>)
       \<lparr>aws_api := (\<lambda>c. case c of
            GetCostAndUsage tp g m gb tok \<Rightarrow>
              Inr (PDict [(''ResultsByTime'', PList [PDict [(''Groups'',
                     PList [cost_group [''S3'', ''us-east-1''] ''0.1'',
                            cost_group [''EC2'', ''us-east-1''] ''0.2''])]])])
          | _ \<Rightarrow> scenario_api c)\<rparr>"

definition scenario_arn :: string where
  "scenario_arn = ''arn:aws:lambda:us-east-1:123456789012:function:cost-report''"

section \<open>Properties\<close>

subsection \<open>The reporting window and the forecast call\<close>

lemma days_in_month_ge: "28 \<le> days_in_month y m"
  by (simp add: days_in_month_def)

lemma report_window_first:
  assumes "valid_date today" "day today = 1" "1 < year today"
  shows "report_window today = Inr (first_of_previous_month today, first_of_month today)"
proof -
  have d: "1 \<le> days_in_month y m" for y m using days_in_month_ge [of y m] by simp
  show ?thesis using assms d
    by (cases today) (auto simp: report_window_def replace_day_def minus_one_day_def ebind_def
       first_of_previous_month_def first_of_month_def valid_date_def)
qed

lemma report_window_later:
  assumes "valid_date today" "day today \<noteq> 1"
  shows "report_window today = Inr (first_of_month today, today)"
proof -
  have d: "1 \<le> days_in_month y m" for y m using days_in_month_ge [of y m] by simp
  show ?thesis using assms d
    by (simp add: report_window_def replace_day_def ebind_def first_of_month_def)
qed

lemma page_loop_calls:
  assumes "page_loop w ext key params tok calls acc = Some y"
  shows "\<exists>ts. fst y = calls @ map params (tok # ts)"
  using assms
proof (induction w ext key params tok calls acc y rule: page_loop.raw_induct [rotated 1, consumes 1])
  case (1 page_loop w ext key params tok calls acc y)
  show ?case
  proof (cases "page_step w ext key (params tok) acc")
    case (Inl e)
    with 1(2) have "fst y = calls @ map params [tok]" by auto
    then show ?thesis by blast
  next
    case (Inr p)
    show ?thesis
    proof (cases "py_truthy (snd p)")
      case True
      with Inr 1(2) have "page_loop w ext key params (Some (snd p)) (calls @ [params tok]) (fst p) = Some y"
        by simp
      from 1(1) [OF this] obtain ts where "fst y = (calls @ [params tok]) @ map params (Some (snd p) # ts)" by blast
      then have "fst y = calls @ map params (tok # Some (snd p) # ts)" by simp
      then show ?thesis by blast
    next
      case False
      with Inr 1(2) have "fst y = calls @ map params [tok]" by auto
      then show ?thesis by blast
    qed
  qed
qed


lemma fetch_forecast_calls:
  assumes "valid_date today" "year today < 9999"
  shows "\<exists>c. fst (fetch_forecast w today) = [c] \<and> is_forecast_call c \<and> cost_call_period c = None"
proof -
  have d: "1 \<le> days_in_month (year today) (month today)"
    using days_in_month_ge [of "year today" "month today"] by simp
  have "ebind (replace_day today (days_in_month (year today) (month today))) plus_one_day
        = plus_one_day (today\<lparr>day := days_in_month (year today) (month today)\<rparr>)"
    using d by (simp add: replace_day_def ebind_def)
  moreover have "\<exists>e. plus_one_day (today\<lparr>day := days_in_month (year today) (month today)\<rparr>) = Inr e"
    using assms by (simp add: plus_one_day_def)
  ultimately obtain e where
    "ebind (replace_day today (days_in_month (year today) (month today))) plus_one_day = Inr e"
    by auto
  then show ?thesis
    by (auto simp: fetch_forecast_def Let_def split: sum.splits)
qed

lemma cost_events_calls:
  "c \<in> set (fst (cost_events cfg rt w acct b tp gs fd))
     \<Longrightarrow> \<not> is_forecast_call c \<and> cost_call_period c = None"
  by (auto simp: cost_events_def Let_def split: if_splits sum.splits prod.splits)

lemma cost_params_calls:
  "c \<in> set (map (cost_params cfg tp) ts)
     \<Longrightarrow> \<not> is_forecast_call c \<and> cost_call_period c = Some tp"
  by (auto simp: cost_params_def)

text \<open>
  C1: on a run that returns, the reporting window is the whole previous month when the
  current UTC day is 1 (start: first day of the previous month, exclusive end: first day of
  the current month) and otherwise runs from the first day of the current month to today
  exclusive, that is through yesterday; every cost request carries that window; a forecast
  call is made only when the day is not 1, and, once the cost data has been fetched, is
  made if and only if the day is not 1. The clock is taken within years 2 to 9998, where
  the date arithmetic of the code cannot leave the calendar.
\<close>

theorem C1_reporting_window:
  assumes v: "valid_date (utcnow_date w)"
      and lo: "1 < year (utcnow_date w)" and hi: "year (utcnow_date w) < 9999"
      and run: "run_cost_explorer_workflow cfg rt w acct = Some (calls, r)"
  shows "\<exists>start_date end_date_for_api.
           report_window (utcnow_date w) = Inr (start_date, end_date_for_api)
         \<and> (start_date, end_date_for_api) =
             (if day (utcnow_date w) = 1
              then (first_of_previous_month (utcnow_date w), first_of_month (utcnow_date w))
              else (first_of_month (utcnow_date w), utcnow_date w))
         \<and> cost_call_period (hd calls) = Some (isoformat start_date, isoformat end_date_for_api)
         \<and> (\<forall>c \<in> set calls. \<forall>tp. cost_call_period c = Some tp
               \<longrightarrow> tp = (isoformat start_date, isoformat end_date_for_api))
         \<and> (list_ex is_forecast_call calls \<longrightarrow> day (utcnow_date w) \<noteq> 1)
         \<and> (\<forall>log1 all_groups.
               page_loop w extend_groups ''NextPageToken''
                 (cost_params cfg (isoformat start_date, isoformat end_date_for_api)) None [] []
                 = Some (log1, Inr all_groups)
               \<longrightarrow> (list_ex is_forecast_call calls \<longleftrightarrow> day (utcnow_date w) \<noteq> 1))"
proof -
  let ?today = "utcnow_date w"
  define win where "win = (if day ?today = 1
              then (first_of_previous_month ?today, first_of_month ?today)
              else (first_of_month ?today, ?today))"
  define tp where "tp = (isoformat (fst win), isoformat (snd win))"
  have rw: "report_window ?today = Inr win"
    using v lo report_window_first [of ?today] report_window_later [of ?today]
    by (auto simp: win_def)
  obtain log1 r1 where pl:
    "page_loop w extend_groups ''NextPageToken'' (cost_params cfg tp) None [] [] = Some (log1, r1)"
    using run rw
    by (auto simp: run_cost_explorer_workflow_def Let_def tp_def split: option.splits)
  from page_loop_calls [OF pl] obtain ts where log1: "log1 = map (cost_params cfg tp) (None # ts)"
    by auto
  have hd1: "cost_call_period (hd (log1 @ xs)) = Some tp" for xs
    by (simp add: log1 cost_params_def)
  have in1: "\<not> is_forecast_call c \<and> cost_call_period c = Some tp" if "c \<in> set log1" for c
    using that cost_params_calls [of c cfg tp "None # ts"] by (simp add: log1)
  have shape: "(\<exists>e. r1 = Inl e \<and> calls = log1)
     \<or> (\<exists>gs log2 log3. r1 = Inr gs \<and> calls = log1 @ log2 @ log3
           \<and> log2 = (if day ?today = 1 then [] else fst (fetch_forecast w ?today))
           \<and> (\<forall>c \<in> set log3. \<not> is_forecast_call c \<and> cost_call_period c = None))"
  proof (cases r1)
    case (Inl e)
    then show ?thesis using run rw pl
      by (simp add: run_cost_explorer_workflow_def Let_def tp_def)
  next
    case (Inr gs)
    show ?thesis
    proof (cases "if day ?today = 1 then ([], Inr (PList [])) else fetch_forecast w ?today")
      case (Pair log2 r2)
      have l2: "log2 = (if day ?today = 1 then [] else fst (fetch_forecast w ?today))"
        using Pair by (auto split: if_splits)
      show ?thesis
      proof (cases r2)
        case (Inl e)
        then have "calls = log1 @ log2 @ []" using run rw pl Inr Pair
          by (simp add: run_cost_explorer_workflow_def Let_def tp_def)
        then show ?thesis using Inr l2 by (intro disjI2 exI [of _ gs] exI [of _ log2] exI [of _ "[]"]) simp
      next
        case r2: (Inr fd)
        obtain log3 r3 where ce: "cost_events cfg rt w acct (day ?today = 1) tp gs fd = (log3, r3)"
          by (cases "cost_events cfg rt w acct (day ?today = 1) tp gs fd")
        then have "calls = log1 @ log2 @ log3" using run rw pl Inr Pair r2
          by (simp add: run_cost_explorer_workflow_def Let_def tp_def)
        moreover have "\<forall>c \<in> set log3. \<not> is_forecast_call c \<and> cost_call_period c = None"
          using cost_events_calls [of _ cfg rt w acct "day ?today = 1" tp gs fd] ce by simp
        ultimately show ?thesis using Inr l2
          by (intro disjI2 exI [of _ gs] exI [of _ log2] exI [of _ log3]) simp
      qed
    qed
  qed
  obtain fc where fc: "fst (fetch_forecast w ?today) = [fc]" "is_forecast_call fc"
      "cost_call_period fc = None"
    using fetch_forecast_calls [of ?today w] v hi by (auto simp:)
  have c_hd: "cost_call_period (hd calls) = Some tp"
    using shape hd1 [of "[]"] hd1 by auto
  have c_all: "\<forall>c \<in> set calls. \<forall>p. cost_call_period c = Some p \<longrightarrow> p = tp"
    using shape in1 fc by (auto split: if_splits)
  have c_fc: "list_ex is_forecast_call calls \<longrightarrow> day ?today \<noteq> 1"
    using shape in1 fc by (auto simp: list_ex_iff split: if_splits)
  have c_iff: "\<forall>l gs. page_loop w extend_groups ''NextPageToken'' (cost_params cfg tp) None [] []
                 = Some (l, Inr gs)
               \<longrightarrow> (list_ex is_forecast_call calls \<longleftrightarrow> day ?today \<noteq> 1)"
    using shape in1 fc pl by (auto simp: list_ex_iff split: if_splits)
  show ?thesis
    using rw c_hd c_all c_fc c_iff
    by (intro exI [of _ "fst win"] exI [of _ "snd win"])
       (simp add: tp_def [symmetric], simp add: win_def)
qed

lemma scenario_pages:
  "page_loop (scenario_world d) extend_groups ''NextPageToken'' (cost_params cfg tp) None [] []
     = Some ([cost_params cfg tp None], Inr [scenario_group])"
  by (simp add: page_loop.simps page_step_def scenario_world_def ebind_def cost_params_def
        extend_groups_def)

lemma scenario_run_mid:
  "\<exists>calls r. run_cost_explorer_workflow scenario_cfg scenario_rt
        (scenario_world \<lparr>year = 2025, month = 7, day = 4\<rparr>) ''123456789012'' = Some (calls, r)"
  by (simp add: run_cost_explorer_workflow_def Let_def report_window_def replace_day_def
        days_in_month_def ebind_def scenario_pages split: prod.splits sum.splits)

theorem C1_reporting_window_witness:
  "\<exists>calls r. run_cost_explorer_workflow scenario_cfg scenario_rt
        (scenario_world \<lparr>year = 2025, month = 7, day = 4\<rparr>) ''123456789012'' = Some (calls, r)
      \<and> cost_call_period (hd calls) = Some (''2025-07-01'', ''2025-07-04'')
      \<and> list_ex is_forecast_call calls"
proof -
  let ?w = "scenario_world \<lparr>year = 2025, month = 7, day = 4\<rparr>"
  obtain calls r where run:
    "run_cost_explorer_workflow scenario_cfg scenario_rt ?w ''123456789012'' = Some (calls, r)"
    using scenario_run_mid by blast
  have v: "valid_date (utcnow_date ?w)" "1 < year (utcnow_date ?w)" "year (utcnow_date ?w) < 9999"
    by (simp_all add: scenario_world_def valid_date_def days_in_month_def)
  have rw: "report_window (utcnow_date ?w)
            = Inr (\<lparr>year = 2025, month = 7, day = 1\<rparr>, \<lparr>year = 2025, month = 7, day = 4\<rparr>)"
    by (simp add: scenario_world_def report_window_def replace_day_def days_in_month_def ebind_def)
  have iso: "isoformat \<lparr>year = 2025, month = 7, day = 1\<rparr> = ''2025-07-01''"
            "isoformat \<lparr>year = 2025, month = 7, day = 4\<rparr> = ''2025-07-04''"
    by (simp_all add: isoformat_def zero_pad_def str_nat.simps digit_char_def)
  have d: "day (utcnow_date ?w) \<noteq> 1" by (simp add: scenario_world_def)
  from C1_reporting_window [OF v run] rw iso d scenario_pages [of "\<lparr>year = 2025, month = 7, day = 4\<rparr>" scenario_cfg]
  have "cost_call_period (hd calls) = Some (''2025-07-01'', ''2025-07-04'')
      \<and> list_ex is_forecast_call calls"
    by auto
  with run show ?thesis by blast
qed

subsection \<open>Auxiliary facts about the error monad and the event dictionaries\<close>

lemma ebind_Inr_iff: "ebind m f = Inr y \<longleftrightarrow> (\<exists>x. m = Inr x \<and> f x = Inr y)"
  by (cases m) (simp_all add: ebind_def)

lemma mapM_exn_length: "mapM_exn f xs = Inr ys \<Longrightarrow> length ys = length xs"
  by (induction xs arbitrary: ys) (auto split: sum.splits)

lemma map_of_update_other: "k \<noteq> k' \<Longrightarrow> map_of (AList.update k' v al) k = map_of al k"
  by (simp add: update_conv')

lemma keyed_field_other:
  assumes "keyed_field b name keys st = Inr st'" "k \<noteq> name"
  shows "map_of (fst st') k = map_of (fst st) k"
  using assms
  by (auto simp: keyed_field_def ebind_Inr_iff map_of_update_other split: if_splits)

lemma strict_amount_lenient:
  assumes "strict_amount rt g = Inr a"
  shows "\<exists>cm v. cost_metrics g = Inr cm \<and> py_get cm ''Amount'' (PInt 0) = Inr v
           \<and> py_float rt v = Inr a"
proof -
  from assms obtain m u v where
    m: "py_item g ''Metrics'' = Inr m" and u: "py_item m ''UnblendedCost'' = Inr u"
    and v: "py_item u ''Amount'' = Inr v" and a: "py_float rt v = Inr a"
    by (auto simp: strict_amount_def ebind_Inr_iff)
  have item_get: "py_get x k d = Inr y" if "py_item x k = Inr y" for x k d y
    using that by (cases x) (auto split: option.splits)
  show ?thesis
    using item_get [OF m] item_get [OF u] item_get [OF v] a
    by (auto simp: cost_metrics_def ebind_def)
qed

lemma lenient_amount_strict: "strict_amount rt g = Inr a \<Longrightarrow> lenient_amount rt g = Inr a"
  using strict_amount_lenient [of rt g a] by (auto simp: lenient_amount_def ebind_def)

lemma event_detail_fields:
  assumes "event_detail cfg rt acct tp g = Inr ev"
  shows "map_of ev ''recordType'' = Some (PStr ''detail'')
       \<and> (\<exists>a. lenient_amount rt g = Inr a \<and> map_of ev ''cost.unblended'' = Some (PFloat a))
       \<and> map_of ev ''period.start'' = Some (PStr (fst tp))
       \<and> map_of ev ''period.end'' = Some (PStr (snd tp))"
proof -
  from assms obtain cm v a unit keys st1 st2 st3 where
    cm: "cost_metrics g = Inr cm" and v: "py_get cm ''Amount'' (PInt 0) = Inr v"
    and a: "py_float rt v = Inr a"
    and s1: "keyed_field (GROUP_BY_DIMENSION_KEY cfg \<noteq> [])
              (''aws.'' @ to_camel_case (GROUP_BY_DIMENSION_KEY cfg)) keys
              ([(''eventType'', PStr ''AwsCostReport''), (''recordType'', PStr ''detail''),
                (''aws.accountId'', PStr acct),
                (''aws.lambdaRegion'', PStr (TARGET_REGION cfg)),
                (''period.start'', PStr (fst tp)),
                (''period.end'', PStr (snd tp)),
                (''cost.unblended'', PFloat a), (''cost.currency'', unit)], 0) = Inr st1"
    and s2: "keyed_field True ''aws.region'' keys st1 = Inr st2"
    and s3: "(case GROUP_BY_TAG_KEY cfg of None \<Rightarrow> Inr st2
              | Some t \<Rightarrow> keyed_field (t \<noteq> []) (tag_field_name t) keys st2) = Inr st3"
    and ev: "ev = fst st3"
    by (auto simp: event_detail_def ebind_Inr_iff)
  have la: "lenient_amount rt g = Inr a"
    using cm v a by (simp add: lenient_amount_def ebind_def)
  have keep: "map_of ev k = map_of [(''eventType'', PStr ''AwsCostReport''), (''recordType'', PStr ''detail''),
                (''aws.accountId'', PStr acct),
                (''aws.lambdaRegion'', PStr (TARGET_REGION cfg)),
                (''period.start'', PStr (fst tp)),
                (''period.end'', PStr (snd tp)),
                (''cost.unblended'', PFloat a), (''cost.currency'', unit)] k"
    if "\<not> startswith k ''aws.''" for k
  proof -
    have n1: "k \<noteq> ''aws.'' @ s" for s using that by (auto simp: startswith_def)
    have n2: "k \<noteq> ''aws.region''" using n1 [of "''region''"] by simp
    have n3: "k \<noteq> tag_field_name t" for t using n1 [of "''tag.'' @ x" for x] by (simp add: tag_field_name_def)
    have "map_of (fst st3) k = map_of (fst st2) k"
      using s3 keyed_field_other [of _ _ keys st2 st3 k] n3 by (auto split: option.splits)
    also have "\<dots> = map_of (fst st1) k" using keyed_field_other [OF s2 n2] .
    also have "\<dots> = map_of (fst ([(''eventType'', PStr ''AwsCostReport''), (''recordType'', PStr ''detail''),
                (''aws.accountId'', PStr acct),
                (''aws.lambdaRegion'', PStr (TARGET_REGION cfg)),
                (''period.start'', PStr (fst tp)),
                (''period.end'', PStr (snd tp)),
                (''cost.unblended'', PFloat a), (''cost.currency'', unit)], 0::nat)) k"
      using keyed_field_other [OF s1 n1] .
    finally show ?thesis by (simp add: ev)
  qed
  show ?thesis
    using la keep [of "''recordType''"] keep [of "''cost.unblended''"] keep [of "''period.start''"]
      keep [of "''period.end''"]
    by (simp add: startswith_def)
qed

lemma foldl_analysis_other:
  "\<not> startswith k ''analysis.''
    \<Longrightarrow> map_of (foldl (\<lambda>ev p. AList.update (''analysis.'' @ fst p) (snd p) ev) s items) k
        = map_of s k"
proof (induction items arbitrary: s)
  case Nil
  then show ?case by simp
next
  case (Cons p items)
  have "k \<noteq> ''analysis.'' @ fst p" using Cons.prems by (auto simp: startswith_def)
  then show ?case using Cons by (simp add: map_of_update_other)
qed

lemma add_analysis_other:
  assumes "\<not> startswith k ''analysis.''"
  shows "map_of (add_analysis rt w c s) k = map_of s k"
proof (cases "analysis_result rt w c")
  case (Inl e)
  have "k \<noteq> ''analysis.error''" using assms by (auto simp: startswith_def)
  then show ?thesis using Inl by (simp add: add_analysis_def map_of_update_other)
next
  case (Inr items)
  then show ?thesis
    using foldl_analysis_other [OF assms, of s items] by (simp add: add_analysis_def)
qed

lemma cost_events_Inr:
  assumes "cost_events cfg rt w acct b tp gs fd = (calls, Inr evs)"
  shows "(gs = [] \<and> \<not> py_truthy fd \<and> evs = [] \<and> calls = [])
       \<or> (gs \<noteq> [] \<and> (\<exists>t details fa drivers c.
             total_cost rt gs = Inr t
           \<and> mapM_exn (event_detail cfg rt acct tp) gs = Inr details
           \<and> forecast_amount rt fd = Inr fa
           \<and> top_cost_drivers cfg rt gs = Inr drivers
           \<and> calls = [c]
           \<and> evs = details @ [add_analysis rt w c (summary_event cfg acct tp t fa)]))"
proof (cases "gs = []")
  case True
  then show ?thesis using assms by (auto simp: cost_events_def split: if_splits)
next
  case False
  let ?m = "ebind (total_cost rt gs) (\<lambda>total_usd.
              ebind (mapM_exn (event_detail cfg rt acct tp) gs) (\<lambda>events.
              ebind (forecast_amount rt fd) (\<lambda>forecast.
              ebind (top_cost_drivers cfg rt gs) (\<lambda>drivers.
              Inr (total_usd, events, forecast, drivers)))))"
  from assms False obtain q where q: "?m = Inr q"
    by (cases ?m) (auto simp: cost_events_def)
  obtain t details fa drivers where q4: "q = (t, details, fa, drivers)" by (cases q) auto
  from q q4 have parts: "total_cost rt gs = Inr t"
      "mapM_exn (event_detail cfg rt acct tp) gs = Inr details"
      "forecast_amount rt fd = Inr fa" "top_cost_drivers cfg rt gs = Inr drivers"
    by (auto simp: ebind_Inr_iff)
  from assms False q q4 have
    "\<exists>c. calls = [c] \<and> evs = details @ [add_analysis rt w c (summary_event cfg acct tp t fa)]"
    by (auto simp: cost_events_def Let_def)
  with parts False show ?thesis by blast
qed

lemma run_cost_Inr:
  assumes "run_cost_explorer_workflow cfg rt w acct = Some (calls, Inr evs)"
  shows "\<exists>win log1 gs log2 fd log3.
           report_window (utcnow_date w) = Inr win
         \<and> page_loop w extend_groups ''NextPageToken''
             (cost_params cfg (isoformat (fst win), isoformat (snd win))) None [] []
             = Some (log1, Inr gs)
         \<and> (if day (utcnow_date w) = 1 then ([], Inr (PList []))
             else fetch_forecast w (utcnow_date w)) = (log2, Inr fd)
         \<and> cost_events cfg rt w acct (day (utcnow_date w) = 1)
              (isoformat (fst win), isoformat (snd win)) gs fd = (log3, Inr evs)
         \<and> calls = log1 @ log2 @ log3"
proof -
  from assms obtain win where win: "report_window (utcnow_date w) = Inr win"
    by (cases "report_window (utcnow_date w)")
       (auto simp: run_cost_explorer_workflow_def Let_def)
  let ?tp = "(isoformat (fst win), isoformat (snd win))"
  let ?pl = "page_loop w extend_groups ''NextPageToken'' (cost_params cfg ?tp) None [] []"
  from assms win obtain log1 gs where pl: "?pl = Some (log1, Inr gs)"
    by (auto simp: run_cost_explorer_workflow_def Let_def split: option.splits sum.splits)
  let ?ff = "if day (utcnow_date w) = 1 then ([], Inr (PList []))
             else fetch_forecast w (utcnow_date w)"
  obtain log2 r2 where ff: "?ff = (log2, r2)" by (cases ?ff)
  from assms win pl ff obtain fd where fd: "r2 = Inr fd"
    by (cases r2) (auto simp: run_cost_explorer_workflow_def Let_def)
  obtain log3 r3 where ce: "cost_events cfg rt w acct (day (utcnow_date w) = 1) ?tp gs fd = (log3, r3)"
    by (cases "cost_events cfg rt w acct (day (utcnow_date w) = 1) ?tp gs fd")
  from assms win pl ff fd ce have "r3 = Inr evs" "calls = log1 @ log2 @ log3"
    by (auto simp: run_cost_explorer_workflow_def Let_def)
  with win pl ff fd ce show ?thesis by blast
qed

subsection \<open>The summary total\<close>

lemma detail_amounts:
  assumes "mapM_exn (strict_amount rt) gs = Inr xs"
      and "mapM_exn (event_detail cfg rt acct tp) gs = Inr details"
  shows "map (\<lambda>d. map_of d ''cost.unblended'') details = map (\<lambda>a. Some (PFloat a)) xs"
  using assms
proof (induction gs arbitrary: xs details)
  case Nil
  then show ?case by simp
next
  case (Cons g gs)
  from Cons.prems obtain a xs' where a: "strict_amount rt g = Inr a"
      and xs': "mapM_exn (strict_amount rt) gs = Inr xs'" and xs: "xs = a # xs'"
    by (auto split: sum.splits)
  from Cons.prems obtain d ds where d: "event_detail cfg rt acct tp g = Inr d"
      and ds: "mapM_exn (event_detail cfg rt acct tp) gs = Inr ds" and details: "details = d # ds"
    by (auto split: sum.splits)
  have "map_of d ''cost.unblended'' = Some (PFloat a)"
    using event_detail_fields [OF d] lenient_amount_strict [OF a] by auto
  with Cons.IH [OF xs' ds] xs details show ?case by simp
qed

lemma details_are_details:
  "mapM_exn (event_detail cfg rt acct tp) gs = Inr details \<Longrightarrow> \<forall>d \<in> set details. is_detail d"
proof (induction gs arbitrary: details)
  case Nil
  then show ?case by simp
next
  case (Cons g gs)
  then show ?case
    by (auto split: sum.splits simp: is_detail_def dest: event_detail_fields)
qed

lemma summary_is_summary:
  "is_summary (add_analysis rt w c (summary_event cfg acct tp t fa))"
  "\<not> is_detail (add_analysis rt w c (summary_event cfg acct tp t fa))"
  "map_of (add_analysis rt w c (summary_event cfg acct tp t fa)) ''cost.totalUnblended''
     = Some (PFloat t)"
  "map_of (add_analysis rt w c (summary_event cfg acct tp t fa)) ''cost.monthlyForecast''
     = Some (PFloat fa)"
  by (simp_all add: is_summary_def is_detail_def add_analysis_other startswith_def
        summary_event_def)

lemma filter_all: "\<forall>x \<in> set xs. P x \<Longrightarrow> filter P xs = xs"
  by (induction xs) auto

lemma filter_none: "\<forall>x \<in> set xs. \<not> P x \<Longrightarrow> filter P xs = []"
  by (induction xs) auto

lemma detail_not_summary: "is_detail d \<Longrightarrow> \<not> is_summary d"
  by (simp add: is_detail_def is_summary_def)

text \<open>
  C4: on a run of the cost workflow that returns events, the field \<open>cost.totalUnblended\<close>
  of the summary record is the float that the built-in sum of the runtime gives on the
  \<open>cost.unblended\<close> amounts of the detail records, taken in the order of the records:
  \<^verbatim>\<open>sum(details.amount) == summary.total\<close>, whatever the rounding of the runtime's
  sum is. Both sides are floats of the same source amounts, summed in the same order. The
  total need not be the sum of the amounts as real numbers.
\<close>

theorem C4_summary_total:
  assumes "run_cost_explorer_workflow cfg rt w acct = Some (calls, Inr evs)"
  shows "\<exists>amounts.
           map (\<lambda>d. map_of d ''cost.unblended'') (filter is_detail evs)
             = map (\<lambda>a. Some (PFloat a)) amounts
         \<and> (evs \<noteq> [] \<longrightarrow>
              map (\<lambda>s. map_of s ''cost.totalUnblended'') (filter is_summary evs)
                = [Some (PFloat (float_sum rt amounts))])"
proof -
  from run_cost_Inr [OF assms] obtain tp gs fd log3 where
    ce: "cost_events cfg rt w acct (day (utcnow_date w) = 1) tp gs fd = (log3, Inr evs)"
    by blast
  from cost_events_Inr [OF ce] show ?thesis
  proof
    assume "gs = [] \<and> \<not> py_truthy fd \<and> evs = [] \<and> log3 = []"
    then show ?thesis by (intro exI [of _ "[]"]) simp
  next
    assume "gs \<noteq> [] \<and> (\<exists>t details fa drivers c.
             total_cost rt gs = Inr t
           \<and> mapM_exn (event_detail cfg rt acct tp) gs = Inr details
           \<and> forecast_amount rt fd = Inr fa
           \<and> top_cost_drivers cfg rt gs = Inr drivers
           \<and> log3 = [c]
           \<and> evs = details @ [add_analysis rt w c (summary_event cfg acct tp t fa)])"
    then obtain t details fa c where
      t: "total_cost rt gs = Inr t"
      and details: "mapM_exn (event_detail cfg rt acct tp) gs = Inr details"
      and evs: "evs = details @ [add_analysis rt w c (summary_event cfg acct tp t fa)]"
      by blast
    from t obtain xs where xs: "mapM_exn (strict_amount rt) gs = Inr xs"
      and sum: "t = float_sum rt xs"
      by (auto simp: total_cost_def ebind_Inr_iff)
    have dd: "\<forall>d \<in> set details. is_detail d" using details_are_details [OF details] .
    then have ds: "\<forall>d \<in> set details. \<not> is_summary d" by (simp add: detail_not_summary)
    have "filter is_detail evs = details"
      using dd by (simp add: evs summary_is_summary filter_all)
    moreover have "filter is_summary evs = [add_analysis rt w c (summary_event cfg acct tp t fa)]"
      using ds by (simp add: evs summary_is_summary filter_none)
    ultimately show ?thesis
      using detail_amounts [OF xs details] sum
      by (intro exI [of _ xs]) (simp add: summary_is_summary)
  qed
qed

lemma scenario_mid_events:
  "returned_events (run_cost_explorer_workflow scenario_cfg scenario_rt
      (scenario_world \<lparr>year = 2025, month = 7, day = 4\<rparr>) ''123456789012'')
   = [scenario_detail ''2025-07-01'' ''2025-07-04'', scenario_summary ''2025-07-01'' ''2025-07-04'']"
  by code_simp

lemma scenario_first_events:
  "returned_events (run_cost_explorer_workflow scenario_cfg scenario_rt
      (scenario_world \<lparr>year = 2025, month = 7, day = 1\<rparr>) ''123456789012'')
   = [scenario_detail ''2025-06-01'' ''2025-07-01'', scenario_summary ''2025-06-01'' ''2025-07-01'']"
  by code_simp

lemma returned_events_run:
  "returned_events r = evs \<Longrightarrow> evs \<noteq> [] \<Longrightarrow> \<exists>calls. r = Some (calls, Inr evs)"
  by (auto simp: returned_events_def split: option.splits sum.splits)

lemma returned_events_nonempty:
  "returned_events r \<noteq> [] \<Longrightarrow> \<exists>calls. r = Some (calls, Inr (returned_events r))"
  by (auto simp: returned_events_def split: option.splits sum.splits)

lemma rounding_details:
  "map (\<lambda>d. map_of d ''cost.unblended'')
     (filter is_detail
       (returned_events
          (run_cost_explorer_workflow scenario_cfg scenario_rt rounding_world ''123456789012'')))
   = [Some (PFloat double_0_1), Some (PFloat double_0_2)]"
  by code_simp

lemma rounded_sum_is_not_exact: "double_0_1_plus_0_2 \<noteq> double_0_1 + double_0_2"
  by (simp add: double_0_1_def double_0_2_def double_0_1_plus_0_2_def)

text \<open>
  The cost source returns two groups, with the amounts 0.1 and 0.2: the two detail records
  carry these doubles, and the total of the summary record is the double
  0.30000000000000004 that their sum rounds to, which is not their sum as real numbers.
\<close>

theorem C4_summary_total_witness:
  "\<exists>calls evs.
      run_cost_explorer_workflow scenario_cfg scenario_rt rounding_world ''123456789012''
        = Some (calls, Inr evs)
    \<and> evs \<noteq> []
    \<and> map (\<lambda>d. map_of d ''cost.unblended'') (filter is_detail evs)
        = [Some (PFloat double_0_1), Some (PFloat double_0_2)]
    \<and> map (\<lambda>s. map_of s ''cost.totalUnblended'') (filter is_summary evs)
        = [Some (PFloat double_0_1_plus_0_2)]
    \<and> double_0_1_plus_0_2 \<noteq> double_0_1 + double_0_2"
proof -
  let ?r = "run_cost_explorer_workflow scenario_cfg scenario_rt rounding_world ''123456789012''"
  let ?evs = "returned_events ?r"
  have d: "map (\<lambda>d. map_of d ''cost.unblended'') (filter is_detail ?evs)
             = [Some (PFloat double_0_1), Some (PFloat double_0_2)]"
    by (rule rounding_details)
  have ne: "?evs \<noteq> []"
  proof
    assume "?evs = []"
    then have "map (\<lambda>d. map_of d ''cost.unblended'') (filter is_detail ?evs) = []" by simp
    with d show False by simp
  qed
  from returned_events_nonempty [OF ne] obtain calls where run: "?r = Some (calls, Inr ?evs)" ..
  from C4_summary_total [OF run] obtain amounts where
    as: "map (\<lambda>d. map_of d ''cost.unblended'') (filter is_detail ?evs)
          = map (\<lambda>a. Some (PFloat a)) amounts
      \<and> (?evs \<noteq> [] \<longrightarrow> map (\<lambda>s. map_of s ''cost.totalUnblended'') (filter is_summary ?evs)
              = [Some (PFloat (float_sum scenario_rt amounts))])" ..
  from conjunct1 [OF as] d
  have "map (\<lambda>a. Some (PFloat a)) amounts = [Some (PFloat double_0_1), Some (PFloat double_0_2)]"
    by simp
  then have am: "amounts = [double_0_1, double_0_2]"
    by (auto simp: map_eq_Cons_conv)
  have fs: "float_sum scenario_rt [double_0_1, double_0_2] = double_0_1_plus_0_2"
    by (simp add: scenario_rt_def)
  from conjunct2 [OF as, THEN mp, OF ne]
  have t: "map (\<lambda>s. map_of s ''cost.totalUnblended'') (filter is_summary ?evs)
              = [Some (PFloat double_0_1_plus_0_2)]"
    unfolding am fs .
  show ?thesis
    apply (rule exI [of _ calls])
    apply (rule exI [of _ ?evs])
    apply (intro conjI)
        apply (rule run)
       apply (rule ne)
      apply (rule d)
     apply (rule t)
    apply (rule rounded_sum_is_not_exact)
    done
qed

subsection \<open>The shape of the returned event lists\<close>

lemma detail_event_is_detail:
  "detail_event rt acct r t u = Inr ev \<Longrightarrow> is_detail ev"
  by (auto simp: detail_event_def ebind_Inr_iff is_detail_def)

lemma try_rec_events:
  assumes "try_rec cfg rt acct st r = Inr st' \<or> try_rec cfg rt acct st r = Inl (e, st')"
  shows "\<exists>new. events st' = events st @ new \<and> (\<forall>d \<in> set new. is_detail d) \<and> length new \<le> 1"
proof -
  have one: "\<exists>new. events st @ [ev] = events st @ new \<and> (\<forall>d \<in> set new. is_detail d)
               \<and> length new \<le> 1" if "is_detail ev" for ev
    using that by (intro exI [of _ "[ev]"]) simp
  show ?thesis
    using assms one
    by (auto simp: try_rec_def Let_def split: sum.splits dest!: detail_event_is_detail)
qed

lemma rec_loop_events:
  "rec_loop cfg rt acct st recs = Inr st'
    \<Longrightarrow> \<exists>new. events st' = events st @ new \<and> (\<forall>d \<in> set new. is_detail d)
          \<and> length new \<le> length recs"
proof (induction recs arbitrary: st)
  case Nil
  then show ?case by simp
next
  case (Cons r recs)
  from Cons.prems obtain e st1 where
    step: "try_rec cfg rt acct st r = Inr st1 \<or> try_rec cfg rt acct st r = Inl (e, st1)"
    and rest: "rec_loop cfg rt acct st1 recs = Inr st'"
    by (auto split: sum.splits if_splits)
  from try_rec_events [OF step] obtain n1 where
    n1: "events st1 = events st @ n1" "\<forall>d \<in> set n1. is_detail d" "length n1 \<le> 1" by blast
  from Cons.IH [OF rest] obtain n2 where
    n2: "events st' = events st1 @ n2" "\<forall>d \<in> set n2. is_detail d" "length n2 \<le> length recs"
    by blast
  show ?case using n1 n2 by (intro exI [of _ "n1 @ n2"]) auto
qed

lemma rec_events_Inr:
  assumes "rec_events cfg rt w acct recs = (calls, Inr evs)"
  shows "(recs = [] \<and> evs = [] \<and> calls = [])
       \<or> (recs \<noteq> [] \<and> (\<exists>st c.
             rec_loop cfg rt acct initial_rec_state recs = Inr st
           \<and> calls = [c]
           \<and> evs = events st @ [add_analysis rt w c (rec_summary_event cfg rt acct recs st)]))"
  using assms by (auto simp: rec_events_def Let_def split: if_splits sum.splits)

lemma run_rec_Inr:
  assumes "run_recommendation_workflow cfg rt w acct = Some (calls, Inr evs)"
  shows "\<exists>log1 recs log2.
           page_loop w extend_items ''nextToken'' (rec_params acct) None [] []
             = Some (log1, Inr recs)
         \<and> rec_events cfg rt w acct recs = (log2, Inr evs)
         \<and> calls = log1 @ log2"
  using assms
  by (auto simp: run_recommendation_workflow_def split: option.splits sum.splits prod.splits)

lemma rec_summary_is_summary:
  "is_summary (add_analysis rt w c (rec_summary_event cfg rt acct recs st))"
  "\<not> is_detail (add_analysis rt w c (rec_summary_event cfg rt acct recs st))"
  "map_of (add_analysis rt w c (rec_summary_event cfg rt acct recs st))
     ''recommendation.totalCount'' = Some (PInt (int (length recs)))"
  "map_of (add_analysis rt w c (rec_summary_event cfg rt acct recs st))
     ''cost.totalEstimatedSavings'' = Some (PFloat (total_savings st))"
  by (simp_all add: is_summary_def is_detail_def add_analysis_other startswith_def
        rec_summary_event_def)

text \<open>The shape of what the cost workflow returns.\<close>

lemma cost_events_shape:
  assumes "cost_events cfg rt w acct b tp gs fd = (calls, Inr evs)"
  shows "(gs = [] \<and> evs = [])
       \<or> (gs \<noteq> [] \<and> (\<exists>details s. evs = details @ [s] \<and> (\<forall>d \<in> set details. is_detail d)
              \<and> is_summary s \<and> length details = length gs))"
proof -
  from cost_events_Inr [OF assms] show ?thesis
  proof
    assume "gs = [] \<and> \<not> py_truthy fd \<and> evs = [] \<and> calls = []"
    then show ?thesis by simp
  next
    assume "gs \<noteq> [] \<and> (\<exists>t details fa drivers c.
             total_cost rt gs = Inr t
           \<and> mapM_exn (event_detail cfg rt acct tp) gs = Inr details
           \<and> forecast_amount rt fd = Inr fa
           \<and> top_cost_drivers cfg rt gs = Inr drivers
           \<and> calls = [c]
           \<and> evs = details @ [add_analysis rt w c (summary_event cfg acct tp t fa)])"
    then obtain t details fa c where ne: "gs \<noteq> []"
      and details: "mapM_exn (event_detail cfg rt acct tp) gs = Inr details"
      and evs: "evs = details @ [add_analysis rt w c (summary_event cfg acct tp t fa)]"
      by blast
    have "\<forall>d \<in> set details. is_detail d" using details_are_details [OF details] .
    moreover have "length details = length gs" using mapM_exn_length [OF details] .
    ultimately have "\<exists>details s. evs = details @ [s] \<and> (\<forall>d \<in> set details. is_detail d)
              \<and> is_summary s \<and> length details = length gs"
      using evs summary_is_summary(1) [of rt w c cfg acct tp t fa]
      by (intro exI [of _ details]
            exI [of _ "add_analysis rt w c (summary_event cfg acct tp t fa)"]) simp
    with ne show ?thesis by simp
  qed
qed

lemma rec_events_shape:
  assumes "rec_events cfg rt w acct recs = (calls, Inr evs)"
  shows "(recs = [] \<and> evs = [])
       \<or> (recs \<noteq> [] \<and> (\<exists>details s. evs = details @ [s] \<and> (\<forall>d \<in> set details. is_detail d)
              \<and> is_summary s \<and> length details \<le> length recs))"
proof -
  from rec_events_Inr [OF assms] show ?thesis
  proof
    assume "recs = [] \<and> evs = [] \<and> calls = []"
    then show ?thesis by simp
  next
    assume "recs \<noteq> [] \<and> (\<exists>st c.
             rec_loop cfg rt acct initial_rec_state recs = Inr st
           \<and> calls = [c]
           \<and> evs = events st @ [add_analysis rt w c (rec_summary_event cfg rt acct recs st)])"
    then obtain st c where ne: "recs \<noteq> []"
      and loop: "rec_loop cfg rt acct initial_rec_state recs = Inr st"
      and evs: "evs = events st @ [add_analysis rt w c (rec_summary_event cfg rt acct recs st)]"
      by blast
    from rec_loop_events [OF loop] have "\<forall>d \<in> set (events st). is_detail d"
      "length (events st) \<le> length recs" by (auto simp: initial_rec_state_def)
    with ne evs show ?thesis by (auto simp: rec_summary_is_summary)
  qed
qed

lemma shape_summaries:
  assumes "evs = details @ [s]" "\<forall>d \<in> set details. is_detail d" "is_summary s"
  shows "filter is_summary evs = [s]" "filter is_detail evs = details"
    "\<forall>e \<in> set evs. is_detail e \<or> is_summary e"
  using assms by (auto simp: filter_all filter_none detail_not_summary)

text \<open>
  C9: an event list that a workflow returns holds at most one summary record, and every
  record in it is a detail record or a summary record; a summary record is present only if
  the source returned at least one record (for the cost workflow this is more than the
  claim asks: a forecast alone does not produce one). If the recommendation source returns
  no record, the recommendation workflow returns the empty list; if there is no cost data
  and no forecast, the cost workflow returns the empty list.
\<close>

theorem C9_record_lists:
  "(\<forall>calls evs. run_cost_explorer_workflow cfg rt w acct = Some (calls, Inr evs) \<longrightarrow>
        length (filter is_summary evs) \<le> 1
      \<and> (\<forall>e \<in> set evs. is_detail e \<or> is_summary e)
      \<and> (filter is_summary evs \<noteq> [] \<longrightarrow>
           (\<exists>tp log gs. page_loop w extend_groups ''NextPageToken'' (cost_params cfg tp)
                           None [] [] = Some (log, Inr gs) \<and> gs \<noteq> [])))
 \<and> (\<forall>calls evs. run_recommendation_workflow cfg rt w acct = Some (calls, Inr evs) \<longrightarrow>
        length (filter is_summary evs) \<le> 1
      \<and> (\<forall>e \<in> set evs. is_detail e \<or> is_summary e)
      \<and> (filter is_summary evs \<noteq> [] \<longrightarrow>
           (\<exists>log recs. page_loop w extend_items ''nextToken'' (rec_params acct)
                           None [] [] = Some (log, Inr recs) \<and> recs \<noteq> [])))
 \<and> (\<forall>log. page_loop w extend_items ''nextToken'' (rec_params acct) None [] []
               = Some (log, Inr [])
        \<longrightarrow> run_recommendation_workflow cfg rt w acct = Some (log, Inr []))
 \<and> (\<forall>win log1 log2 fd.
        report_window (utcnow_date w) = Inr win
      \<and> page_loop w extend_groups ''NextPageToken''
          (cost_params cfg (isoformat (fst win), isoformat (snd win))) None [] []
          = Some (log1, Inr [])
      \<and> (if day (utcnow_date w) = 1 then ([], Inr (PList []))
          else fetch_forecast w (utcnow_date w)) = (log2, Inr fd)
      \<and> \<not> py_truthy fd
        \<longrightarrow> run_cost_explorer_workflow cfg rt w acct = Some (log1 @ log2, Inr []))"
proof (intro conjI allI impI)
  fix calls evs
  assume run: "run_cost_explorer_workflow cfg rt w acct = Some (calls, Inr evs)"
  from run_cost_Inr [OF run] obtain win log1 gs fd log3 where
    pl: "page_loop w extend_groups ''NextPageToken''
             (cost_params cfg (isoformat (fst win), isoformat (snd win))) None [] []
             = Some (log1, Inr gs)"
    and ce: "cost_events cfg rt w acct (day (utcnow_date w) = 1)
              (isoformat (fst win), isoformat (snd win)) gs fd = (log3, Inr evs)"
    by blast
  from cost_events_shape [OF ce]
  have sh: "(gs = [] \<and> evs = [])
       \<or> (gs \<noteq> [] \<and> (\<exists>details s. evs = details @ [s] \<and> (\<forall>d \<in> set details. is_detail d)
              \<and> is_summary s \<and> length details = length gs))" .
  show "length (filter is_summary evs) \<le> 1"
    using sh shape_summaries(1) by fastforce
  show "\<forall>e \<in> set evs. is_detail e \<or> is_summary e"
    using sh shape_summaries(3) by fastforce
  assume "filter is_summary evs \<noteq> []"
  with sh have "gs \<noteq> []" by auto
  with pl show "\<exists>tp log gs. page_loop w extend_groups ''NextPageToken'' (cost_params cfg tp)
                           None [] [] = Some (log, Inr gs) \<and> gs \<noteq> []"
    by blast
next
  fix calls evs
  assume run: "run_recommendation_workflow cfg rt w acct = Some (calls, Inr evs)"
  from run_rec_Inr [OF run] obtain log1 recs log2 where
    pl: "page_loop w extend_items ''nextToken'' (rec_params acct) None [] []
             = Some (log1, Inr recs)"
    and re: "rec_events cfg rt w acct recs = (log2, Inr evs)"
    by blast
  from rec_events_shape [OF re]
  have sh: "(recs = [] \<and> evs = [])
       \<or> (recs \<noteq> [] \<and> (\<exists>details s. evs = details @ [s] \<and> (\<forall>d \<in> set details. is_detail d)
              \<and> is_summary s \<and> length details \<le> length recs))" .
  show "length (filter is_summary evs) \<le> 1"
    using sh shape_summaries(1) by fastforce
  show "\<forall>e \<in> set evs. is_detail e \<or> is_summary e"
    using sh shape_summaries(3) by fastforce
  assume "filter is_summary evs \<noteq> []"
  with sh have "recs \<noteq> []" by auto
  with pl show "\<exists>log recs. page_loop w extend_items ''nextToken'' (rec_params acct)
                           None [] [] = Some (log, Inr recs) \<and> recs \<noteq> []"
    by blast
next
  fix log
  assume "page_loop w extend_items ''nextToken'' (rec_params acct) None [] []
               = Some (log, Inr [])"
  then show "run_recommendation_workflow cfg rt w acct = Some (log, Inr [])"
    by (simp add: run_recommendation_workflow_def rec_events_def)
next
  fix win log1 log2 fd
  assume "report_window (utcnow_date w) = Inr win
      \<and> page_loop w extend_groups ''NextPageToken''
          (cost_params cfg (isoformat (fst win), isoformat (snd win))) None [] []
          = Some (log1, Inr [])
      \<and> (if day (utcnow_date w) = 1 then ([], Inr (PList []))
          else fetch_forecast w (utcnow_date w)) = (log2, Inr fd)
      \<and> \<not> py_truthy fd"
  then show "run_cost_explorer_workflow cfg rt w acct = Some (log1 @ log2, Inr [])"
    by (simp add: run_cost_explorer_workflow_def Let_def cost_events_def)
qed

lemma returned_events_Some:
  "returned_events r \<noteq> [] \<Longrightarrow> \<exists>calls. r = Some (calls, Inr (returned_events r))"
  by (auto simp: returned_events_def split: option.splits sum.splits)


lemma scenario_rec_pages:
  "page_loop (scenario_world d) extend_items ''nextToken'' (rec_params a) None [] []
     = Some ([rec_params a None], Inr [])"
  by (simp add: page_loop.simps page_step_def scenario_world_def ebind_def
        rec_params_def extend_items_def)


lemma no_data_pages:
  "page_loop no_data_world extend_groups ''NextPageToken'' (cost_params cfg tp) None [] []
     = Some ([cost_params cfg tp None], Inr [])"
  by (simp add: page_loop.simps page_step_def no_data_world_def scenario_world_def ebind_def
        cost_params_def extend_groups_def)

lemma no_data_window:
  "report_window (utcnow_date no_data_world)
     = Inr (\<lparr>year = 2025, month = 7, day = 1\<rparr>, \<lparr>year = 2025, month = 7, day = 4\<rparr>)"
  by (simp add: no_data_world_def scenario_world_def report_window_def replace_day_def
        days_in_month_def ebind_def)

lemma no_data_forecast:
  "(if day (utcnow_date no_data_world) = 1 then ([], Inr (PList []))
    else fetch_forecast no_data_world (utcnow_date no_data_world))
   = ([GetCostForecast (''2025-07-04'', ''2025-08-01'') ''UNBLENDED_COST'' ''MONTHLY''],
      Inr (PList []))"
  by code_simp

lemma scenario_iso:
  "isoformat \<lparr>year = 2025, month = 7, day = 1\<rparr> = ''2025-07-01''"
  "isoformat \<lparr>year = 2025, month = 7, day = 4\<rparr> = ''2025-07-04''"
  by (simp_all add: isoformat_def zero_pad_def str_nat.simps digit_char_def)

theorem C9_record_lists_witness:
  "\<exists>calls evs.
      run_cost_explorer_workflow scenario_cfg scenario_rt
        (scenario_world \<lparr>year = 2025, month = 7, day = 4\<rparr>) ''123456789012''
        = Some (calls, Inr evs)
    \<and> evs \<noteq> []
    \<and> length (filter is_summary evs) \<le> 1
    \<and> run_recommendation_workflow scenario_cfg scenario_rt
        (scenario_world \<lparr>year = 2025, month = 7, day = 4\<rparr>) ''123456789012''
        = Some ([rec_params ''123456789012'' None], Inr [])
    \<and> run_cost_explorer_workflow scenario_cfg scenario_rt no_data_world ''123456789012''
        = Some ([cost_params scenario_cfg (''2025-07-01'', ''2025-07-04'') None,
                 GetCostForecast (''2025-07-04'', ''2025-08-01'') ''UNBLENDED_COST'' ''MONTHLY''],
                Inr [])"
proof -
  let ?w = "scenario_world \<lparr>year = 2025, month = 7, day = 4\<rparr>"
  let ?evs = "[scenario_detail ''2025-07-01'' ''2025-07-04'',
               scenario_summary ''2025-07-01'' ''2025-07-04'']"
  note c9 = C9_record_lists [of scenario_cfg scenario_rt ?w "''123456789012''"]
  obtain calls where run:
    "run_cost_explorer_workflow scenario_cfg scenario_rt ?w ''123456789012''
        = Some (calls, Inr ?evs)"
    using returned_events_run [OF scenario_mid_events] by auto
  have ne: "?evs \<noteq> []" by simp
  have one: "length (filter is_summary ?evs) \<le> 1"
    using conjunct1 [OF c9, rule_format, OF run] by (rule conjunct1)
  have r: "run_recommendation_workflow scenario_cfg scenario_rt ?w ''123456789012''
        = Some ([rec_params ''123456789012'' None], Inr [])"
    using conjunct1 [OF conjunct2 [OF conjunct2 [OF c9]], rule_format]
      scenario_rec_pages [of "\<lparr>year = 2025, month = 7, day = 4\<rparr>" "''123456789012''"]
    by blast
  let ?win = "(\<lparr>year = 2025, month = 7, day = 1\<rparr>, \<lparr>year = 2025, month = 7, day = 4\<rparr>)"
  let ?log1 = "[cost_params scenario_cfg (''2025-07-01'', ''2025-07-04'') None]"
  let ?log2 = "[GetCostForecast (''2025-07-04'', ''2025-08-01'') ''UNBLENDED_COST'' ''MONTHLY'']"
  have pre: "report_window (utcnow_date no_data_world) = Inr ?win
      \<and> page_loop no_data_world extend_groups ''NextPageToken''
          (cost_params scenario_cfg (isoformat (fst ?win), isoformat (snd ?win))) None [] []
          = Some (?log1, Inr [])
      \<and> (if day (utcnow_date no_data_world) = 1 then ([], Inr (PList []))
          else fetch_forecast no_data_world (utcnow_date no_data_world)) = (?log2, Inr (PList []))
      \<and> \<not> py_truthy (PList [])"
    apply (intro conjI)
       apply (rule no_data_window)
      apply (simp only: fst_conv snd_conv scenario_iso no_data_pages)
     apply (rule no_data_forecast)
    apply simp
    done
  have "run_cost_explorer_workflow scenario_cfg scenario_rt no_data_world ''123456789012''
          = Some (?log1 @ ?log2, Inr [])"
    using conjunct2 [OF conjunct2 [OF conjunct2
            [OF C9_record_lists [of scenario_cfg scenario_rt no_data_world "''123456789012''"]]],
          rule_format, OF pre] .
  then have nd: "run_cost_explorer_workflow scenario_cfg scenario_rt no_data_world ''123456789012''
        = Some ([cost_params scenario_cfg (''2025-07-01'', ''2025-07-04'') None,
                 GetCostForecast (''2025-07-04'', ''2025-08-01'') ''UNBLENDED_COST'' ''MONTHLY''],
                Inr [])"
    by simp
  show ?thesis
    apply (rule exI [of _ calls])
    apply (rule exI [of _ ?evs])
    apply (intro conjI)
        apply (rule run)
       apply (rule ne)
      apply (rule one)
     apply (rule r)
    apply (rule nd)
    done
qed

subsection \<open>The total count of recommendations\<close>




subsection \<open>The forecast field of the summary\<close>

lemma forecast_unavailable_data:
  assumes "fetch_forecast w today = (log2, Inr fd)"
      and "\<forall>c. is_forecast_call c \<longrightarrow> (\<exists>m. aws_api w c = Inl (DataUnavailableException, m))"
  shows "fd = PList []"
proof -
  obtain e where e: "ebind (replace_day today (days_in_month (year today) (month today)))
                       plus_one_day = Inr e"
    using assms(1)
    by (cases "ebind (replace_day today (days_in_month (year today) (month today))) plus_one_day")
       (auto simp: fetch_forecast_def)
  let ?c = "GetCostForecast (isoformat today, isoformat e) ''UNBLENDED_COST'' ''MONTHLY''"
  from assms(2) obtain m where "aws_api w ?c = Inl (DataUnavailableException, m)"
    by (elim allE [of _ ?c]) auto
  with assms(1) e show ?thesis by (simp add: fetch_forecast_def Let_def)
qed

text \<open>
  C8, as amended: whenever the cost workflow returns a summary record and either the run is
  on the first day of the month or the forecast call raises \<^verbatim>\<open>DataUnavailableException\<close>,
  the summary record carries \<open>cost.monthlyForecast\<close> with the value 0.0. The field is
  written unconditionally (line 143), so it is never absent.
\<close>

theorem C8_forecast_field_is_zero:
  assumes run: "run_cost_explorer_workflow cfg rt w acct = Some (calls, Inr evs)"
      and s: "s \<in> set evs" "is_summary s"
      and nofc: "day (utcnow_date w) = 1
                 \<or> (\<forall>c. is_forecast_call c
                       \<longrightarrow> (\<exists>m. aws_api w c = Inl (DataUnavailableException, m)))"
  shows "map_of s ''cost.monthlyForecast'' = Some (PFloat 0)"
proof -
  from run_cost_Inr [OF run] obtain win gs log2 fd log3 where
    ff: "(if day (utcnow_date w) = 1 then ([], Inr (PList []))
             else fetch_forecast w (utcnow_date w)) = (log2, Inr fd)"
    and ce: "cost_events cfg rt w acct (day (utcnow_date w) = 1)
              (isoformat (fst win), isoformat (snd win)) gs fd = (log3, Inr evs)"
    by blast
  have fd: "fd = PList []"
  proof (cases "day (utcnow_date w) = 1")
    case True
    with ff show ?thesis by simp
  next
    case False
    with ff nofc show ?thesis using forecast_unavailable_data [of w "utcnow_date w" log2 fd]
      by simp
  qed
  let ?tp = "(isoformat (fst win), isoformat (snd win))"
  from cost_events_Inr [OF ce] s(1) obtain t details fa c where
    details: "mapM_exn (event_detail cfg rt acct ?tp) gs = Inr details"
    and fa: "forecast_amount rt fd = Inr fa"
    and evs: "evs = details @ [add_analysis rt w c (summary_event cfg acct ?tp t fa)]"
    by auto
  have "fa = 0" using fa fd by (simp add: forecast_amount_def)
  moreover have "s = add_analysis rt w c (summary_event cfg acct ?tp t fa)"
    using s evs details_are_details [OF details] detail_not_summary by auto
  ultimately show ?thesis by (simp add: summary_is_summary)
qed

theorem C8_forecast_field_is_zero_witness:
  "\<exists>calls evs.
      run_cost_explorer_workflow scenario_cfg scenario_rt
        (scenario_world \<lparr>year = 2025, month = 7, day = 4\<rparr>) ''123456789012''
        = Some (calls, Inr evs)
    \<and> scenario_summary ''2025-07-01'' ''2025-07-04'' \<in> set evs
    \<and> is_summary (scenario_summary ''2025-07-01'' ''2025-07-04'')
    \<and> map_of (scenario_summary ''2025-07-01'' ''2025-07-04'') ''cost.monthlyForecast''
        = Some (PFloat 0)"
proof -
  let ?w = "scenario_world \<lparr>year = 2025, month = 7, day = 4\<rparr>"
  let ?s = "scenario_summary ''2025-07-01'' ''2025-07-04''"
  let ?evs = "[scenario_detail ''2025-07-01'' ''2025-07-04'', ?s]"
  obtain calls where run:
    "run_cost_explorer_workflow scenario_cfg scenario_rt ?w ''123456789012''
        = Some (calls, Inr ?evs)"
    using returned_events_run [OF scenario_mid_events] by auto
  have mem: "?s \<in> set ?evs" by simp
  have sm: "is_summary ?s" by (simp add: is_summary_def scenario_summary_def)
  have un: "\<forall>c. is_forecast_call c \<longrightarrow> (\<exists>m. aws_api ?w c = Inl (DataUnavailableException, m))"
  proof (intro allI impI)
    fix c assume "is_forecast_call c"
    then show "\<exists>m. aws_api ?w c = Inl (DataUnavailableException, m)"
      by (cases c) (simp_all add: scenario_world_def)
  qed
  have z: "map_of ?s ''cost.monthlyForecast'' = Some (PFloat 0)"
    using C8_forecast_field_is_zero [OF run mem sm disjI2 [OF un]] .
  show ?thesis
    apply (rule exI [of _ calls])
    apply (rule exI [of _ ?evs])
    apply (intro conjI)
       apply (rule run)
      apply (rule mem)
     apply (rule sm)
    apply (rule z)
    done
qed

text \<open>
  C8 as stated fails: on a first-day run (2025-07-01) of the scenario the summary record
  does contain \<open>cost.monthlyForecast\<close>, with the value 0.0.
\<close>

theorem C8_first_day_field_present:
  "map (\<lambda>s. map_of s ''cost.monthlyForecast'')
     (filter is_summary
       (returned_events (run_cost_explorer_workflow scenario_cfg scenario_rt
          (scenario_world \<lparr>year = 2025, month = 7, day = 1\<rparr>) ''123456789012'')))
   = [Some (PFloat 0)]"
  unfolding scenario_first_events
  by (simp add: is_summary_def scenario_detail_def scenario_summary_def)

subsection \<open>Skipped recommendation records\<close>

text \<open>
  A record whose \<open>estimatedMonthlySavings\<close> is not an integer and cannot be converted is
  skipped without a trace: the conversion raises ValueError or TypeError, and the loop goes
  on with the state unchanged. (An integer too large for a float raises OverflowError,
  which the loop does not catch.)
\<close>

lemma unparsable_savings_skipped:
  assumes "py_get r ''estimatedMonthlySavings'' (PInt 0) = Inr v" "py_float rt v = Inl e"
    and "\<forall>i. v \<noteq> PInt i"
  shows "rec_loop cfg rt acct st (r # rest) = rec_loop cfg rt acct st rest"
proof -
  have "fst e = ValueError \<or> fst e = TypeError"
    using assms(2,3) by (cases v) (auto split: option.splits)
  then show ?thesis using assms(1,2) by (auto simp: try_rec_def ebind_def)
qed

text \<open>
  C6 does not hold for the other numeric field. \<open>estimatedSavingsPercentage\<close> is
  converted last (line 253), after the running sum and the count per type have been
  updated (lines 243 and 245): a record where only that conversion fails is logged as
  skipped and gets no detail event, yet its savings and its resource type are in the
  summary. Here the loop runs on the single record \<open>bad_percentage_rec\<close>.
\<close>

theorem C6_skipped_record_is_counted:
  "rec_loop scenario_cfg scenario_rt ''123456789012'' initial_rec_state [bad_percentage_rec]
     = Inr \<lparr>total_savings = 10, recommendations_by_type = [(''Ec2Instance'', 1)],
            events = [], bedrock_recommendation_summary_list = []\<rparr>
   \<and> map (\<lambda>e. (map_of e ''recordType'', map_of e ''cost.totalEstimatedSavings''))
       (returned_events (run_recommendation_workflow scenario_cfg scenario_rt
          (items_world [bad_percentage_rec]) ''123456789012''))
     = [(Some (PStr ''summary''), Some (PFloat 10))]"
  by code_simp

subsection \<open>The top cost drivers\<close>

lemma mapM_exn_map_snd:
  "\<forall>p \<in> set ps. f (snd p) = Inr (D p) \<Longrightarrow> mapM_exn f (map snd ps) = Inr (map D ps)"
  by (induction ps) auto

lemma mapM_exn_zip:
  "mapM_exn f xs = Inr ys \<Longrightarrow> \<forall>p \<in> set (zip ys xs). f (snd p) = Inr (fst p)"
proof (induction xs arbitrary: ys)
  case Nil
  then show ?case by simp
next
  case (Cons x xs)
  then show ?case by (auto split: sum.splits)
qed

lemma driver_of_amount:
  assumes "lenient_amount rt g = Inr k"
  shows "\<exists>d. driver cfg rt g = Inr d \<and> driver_cost d = Some k
           \<and> (\<exists>keys. py_get g ''Keys'' (PList []) = Inr keys \<and> driver_group d = Some keys)"
proof -
  from assms obtain kv where g: "g = PDict kv"
    by (cases g) (auto simp: lenient_amount_def cost_metrics_def ebind_def)
  show ?thesis using assms
    by (simp add: g driver_def ebind_def driver_cost_def driver_group_def)
qed

text \<open>
  C5: when the amount of every fetched group can be read, the list of top cost drivers
  exists; it is made from the first five entries of a ranking of the groups that is a
  permutation of them, in descending order of amount, and keeps, among groups of equal
  amount, their order in the source; so it has length min(5, number of groups) and its
  amounts are in descending order.
\<close>

theorem C5_top_cost_drivers:
  assumes ks: "mapM_exn (lenient_amount rt) all_groups = Inr ks"
  shows "\<exists>ds ranked.
           top_cost_drivers cfg rt all_groups = Inr ds
         \<and> mset ranked = mset (zip ks all_groups)
         \<and> sorted_wrt (\<lambda>p q. fst q \<le> fst p) ranked
         \<and> (\<forall>a. filter (\<lambda>p. fst p = a) ranked = filter (\<lambda>p. fst p = a) (zip ks all_groups))
         \<and> length ds = min 5 (length all_groups)
         \<and> map driver_cost ds = map (\<lambda>p. Some (fst p)) (take 5 ranked)
         \<and> map driver_group ds
             = map (\<lambda>p. (case py_get (snd p) ''Keys'' (PList []) of
                           Inr keys \<Rightarrow> Some keys | Inl e \<Rightarrow> None)) (take 5 ranked)
         \<and> sorted_wrt (\<lambda>a b. b \<le> a) (map fst (take 5 ranked))"
proof -
  define ranked where "ranked = sort_key (\<lambda>p. - fst p) (zip ks all_groups)"
  define D where "D = (\<lambda>p::real \<times> pyval. case driver cfg rt (snd p) of Inr d \<Rightarrow> d | Inl e \<Rightarrow> PNone)"
  have len: "length ks = length all_groups" using mapM_exn_length [OF ks] .
  have m: "mset ranked = mset (zip ks all_groups)" by (simp add: ranked_def)
  have "sorted (map (\<lambda>p. - fst p) ranked)" by (simp add: ranked_def)
  then have so: "sorted_wrt (\<lambda>p q. fst q \<le> fst p) ranked"
    by (simp add: sorted_wrt_map)
  have st: "filter (\<lambda>p. fst p = a) ranked = filter (\<lambda>p. fst p = a) (zip ks all_groups)" for a
    using sort_key_stable [of "\<lambda>p. - fst p" "- a" "zip ks all_groups"]
    by (simp add: ranked_def)
  have top5: "top_5_groups rt all_groups = Inr (map snd (take 5 ranked))"
    using ks by (simp add: top_5_groups_def ebind_def ranked_def take_map)
  have sub: "set (take 5 ranked) \<subseteq> set (zip ks all_groups)"
    using set_take_subset [of 5 ranked] by (simp add: ranked_def)
  have each: "driver cfg rt (snd p) = Inr (D p) \<and> driver_cost (D p) = Some (fst p)
       \<and> driver_group (D p) = (case py_get (snd p) ''Keys'' (PList []) of
                           Inr keys \<Rightarrow> Some keys | Inl e \<Rightarrow> None)"
    if "p \<in> set (take 5 ranked)" for p
  proof -
    from that sub mapM_exn_zip [OF ks] have "lenient_amount rt (snd p) = Inr (fst p)" by auto
    from driver_of_amount [OF this, of cfg] show ?thesis by (auto simp: D_def)
  qed
  have ds: "top_cost_drivers cfg rt all_groups = Inr (map D (take 5 ranked))"
    using top5 mapM_exn_map_snd [of "take 5 ranked" "driver cfg rt" D] each
    by (simp add: top_cost_drivers_def ebind_def)
  have l: "length (map D (take 5 ranked)) = min 5 (length all_groups)"
    using len by (simp add: ranked_def)
  have c: "map driver_cost (map D (take 5 ranked)) = map (\<lambda>p. Some (fst p)) (take 5 ranked)"
    using each by simp
  have g: "map driver_group (map D (take 5 ranked))
             = map (\<lambda>p. (case py_get (snd p) ''Keys'' (PList []) of
                           Inr keys \<Rightarrow> Some keys | Inl e \<Rightarrow> None)) (take 5 ranked)"
    using each by simp
  have "sorted_wrt (\<lambda>p q. fst q \<le> fst p) (take 5 ranked)"
    using so sorted_wrt_take by blast
  then have s5: "sorted_wrt (\<lambda>a b. b \<le> a) (map fst (take 5 ranked))"
    by (simp add: sorted_wrt_map)
  show ?thesis
    using ds m so st l c g s5
    by (intro exI [of _ "map D (take 5 ranked)"] exI [of _ ranked]) blast
qed

lemma three_groups_amounts:
  "mapM_exn (lenient_amount scenario_rt) three_groups = Inr [5 / 2, 10, 5 / 2]"
  by code_simp

lemma three_groups_drivers:
  "(case top_cost_drivers scenario_cfg scenario_rt three_groups of
      Inr ds \<Rightarrow> map (\<lambda>d. (driver_cost d, driver_group d)) ds
    | Inl e \<Rightarrow> [])
   = [(Some 10, Some (PList [PStr ''EC2'', PStr ''us-east-1''])),
      (Some (5 / 2), Some (PList [PStr ''S3'', PStr ''us-east-1''])),
      (Some (5 / 2), Some (PList [PStr ''RDS'', PStr ''eu-west-1'']))]"
  by code_simp

theorem C5_top_cost_drivers_witness:
  "\<exists>ds. mapM_exn (lenient_amount scenario_rt) three_groups = Inr [5 / 2, 10, 5 / 2]
      \<and> top_cost_drivers scenario_cfg scenario_rt three_groups = Inr ds
      \<and> length ds = 3
      \<and> map (\<lambda>d. (driver_cost d, driver_group d)) ds
          = [(Some 10, Some (PList [PStr ''EC2'', PStr ''us-east-1''])),
             (Some (5 / 2), Some (PList [PStr ''S3'', PStr ''us-east-1''])),
             (Some (5 / 2), Some (PList [PStr ''RDS'', PStr ''eu-west-1'']))]"
proof -
  from C5_top_cost_drivers [OF three_groups_amounts, of scenario_cfg] obtain ds where
    ds: "top_cost_drivers scenario_cfg scenario_rt three_groups = Inr ds"
    and l: "length ds = min 5 (length three_groups)"
    by blast
  have l3: "length ds = 3" using l by (simp add: three_groups_def)
  have v: "map (\<lambda>d. (driver_cost d, driver_group d)) ds
          = [(Some 10, Some (PList [PStr ''EC2'', PStr ''us-east-1''])),
             (Some (5 / 2), Some (PList [PStr ''S3'', PStr ''us-east-1''])),
             (Some (5 / 2), Some (PList [PStr ''RDS'', PStr ''eu-west-1'']))]"
    using three_groups_drivers by (simp only: ds sum.case)
  show ?thesis
    apply (rule exI [of _ ds])
    apply (intro conjI)
       apply (rule three_groups_amounts)
      apply (rule ds)
     apply (rule l3)
    apply (rule v)
    done
qed

subsection \<open>Narrative enrichment\<close>

lemma find_char_first:
  "c \<notin> set pre \<Longrightarrow> find_char c (pre @ c # rest) = int (length pre)"
  by (induction pre) (auto simp: Let_def)

lemma rfind_char_last:
  assumes "c \<notin> set post"
  shows "rfind_char c (xs @ c # post) = int (length xs)"
proof -
  have "find_char c (rev post @ c # rev xs) = int (length (rev post))"
    using assms by (intro find_char_first) simp
  then show ?thesis by (simp add: rfind_char_def Let_def)
qed

lemma py_slice_nat:
  "a \<le> length s \<Longrightarrow> b \<le> length s \<Longrightarrow> py_slice s (int a) (int b) = take (b - a) (drop a s)"
  by (simp add: py_slice_def slice_bound_def Let_def)

lemma slice_embedded:
  assumes "CHR ''{'' \<notin> set pre" "CHR ''}'' \<notin> set post"
  shows "py_slice (pre @ (CHR ''{'' # inner @ [CHR ''}'']) @ post)
           (find_char (CHR ''{'') (pre @ (CHR ''{'' # inner @ [CHR ''}'']) @ post))
           (rfind_char (CHR ''}'') (pre @ (CHR ''{'' # inner @ [CHR ''}'']) @ post) + 1)
         = CHR ''{'' # inner @ [CHR ''}'']"
proof -
  let ?s = "pre @ CHR ''{'' # inner @ CHR ''}'' # post"
  have f: "find_char (CHR ''{'') ?s = int (length pre)"
    using assms(1) by (rule find_char_first)
  have "rfind_char (CHR ''}'') ((pre @ CHR ''{'' # inner) @ CHR ''}'' # post)
          = int (length (pre @ CHR ''{'' # inner))"
    using assms(2) by (rule rfind_char_last)
  then have r: "rfind_char (CHR ''}'') ?s + 1 = int (length pre + length inner + 2)" by simp
  have "py_slice ?s (int (length pre)) (int (length pre + length inner + 2))
          = take (length pre + length inner + 2 - length pre) (drop (length pre) ?s)"
    by (rule py_slice_nat) simp_all
  also have "\<dots> = CHR ''{'' # inner @ [CHR ''}'']" by simp
  finally have "py_slice ?s (find_char (CHR ''{'') ?s) (rfind_char (CHR ''}'') ?s + 1)
                  = CHR ''{'' # inner @ [CHR ''}'']"
    by (simp only: f r)
  then show ?thesis by simp
qed

lemma analysis_error_field:
  assumes "analysis_result rt w c = Inl e"
  shows "map_of (add_analysis rt w c s) ''analysis.error'' = Some (PStr (snd e))"
    and "k \<noteq> ''analysis.error'' \<Longrightarrow> map_of (add_analysis rt w c s) k = map_of s k"
  using assms by (simp_all add: add_analysis_def update_conv')

lemma cost_events_raises_independent:
  "isl (snd (cost_events cfg rt w acct b tp gs fd))
     = isl (snd (cost_events cfg rt w' acct b tp gs fd))"
  by (simp add: cost_events_def Let_def split: sum.splits prod.splits)

lemma rec_events_raises_independent:
  "isl (snd (rec_events cfg rt w acct recs)) = isl (snd (rec_events cfg rt w' acct recs))"
  by (simp add: rec_events_def Let_def split: sum.splits)

text \<open>
  C7, as amended: the enrichment never makes the aggregator fail (whether a workflow's
  last stage raises does not depend on what the model answers); when the call raises, or
  when the text between the first \<open>{\<close> and the last \<open>}\<close> of the response text does not
  parse, the summary record gains \<open>analysis.error\<close> and nothing else changes in it; and
  when the response text is the object \<open>{"x":1}\<close> with prose before it that has no
  \<open>{\<close> and prose after it that has no \<open>}\<close>, the summary record gains \<open>analysis.x\<close>
  with the value 1.
\<close>

theorem C7_enrichment:
  \<open>(\<forall>e. analysis_result rt w c = Inl e \<longrightarrow>
        map_of (add_analysis rt w c s) ''analysis.error'' = Some (PStr (snd e))
      \<and> (\<forall>k. k \<noteq> ''analysis.error'' \<longrightarrow> map_of (add_analysis rt w c s) k = map_of s k))
 \<and> (\<forall>e. invoke_model w c = Inl e \<longrightarrow> analysis_result rt w c = Inl e)
 \<and> (\<forall>t e. raw_text rt w c = Inr (PStr t)
          \<and> json_loads rt (py_slice t (find_char (CHR ''{'') t) (rfind_char (CHR ''}'') t + 1))
              = Inl e
        \<longrightarrow> analysis_result rt w c = Inl e)
 \<and> (\<forall>pre post. raw_text rt w c = Inr (PStr (pre @ ''{"x":1}'' @ post))
          \<and> CHR ''{'' \<notin> set pre \<and> CHR ''}'' \<notin> set post
          \<and> json_loads rt ''{"x":1}'' = Inr (PDict [(''x'', PInt 1)])
        \<longrightarrow> map_of (add_analysis rt w c s) ''analysis.x'' = Some (PInt 1))
 \<and> (\<forall>w'. isl (snd (cost_events cfg rt w' acct b tp gs fd))
           = isl (snd (cost_events cfg rt w acct b tp gs fd)))
 \<and> (\<forall>w'. isl (snd (rec_events cfg rt w' acct recs))
           = isl (snd (rec_events cfg rt w acct recs)))\<close>
proof (intro conjI allI impI)
  fix e assume "analysis_result rt w c = Inl e"
  then show "map_of (add_analysis rt w c s) ''analysis.error'' = Some (PStr (snd e))"
    by (rule analysis_error_field(1))
next
  fix e k assume "analysis_result rt w c = Inl e" "k \<noteq> ''analysis.error''"
  then show "map_of (add_analysis rt w c s) k = map_of s k"
    by (rule analysis_error_field(2))
next
  fix e assume "invoke_model w c = Inl e"
  then show "analysis_result rt w c = Inl e"
    by (simp add: analysis_result_def raw_text_def ebind_def)
next
  fix t e
  assume "raw_text rt w c = Inr (PStr t)
          \<and> json_loads rt (py_slice t (find_char (CHR ''{'') t) (rfind_char (CHR ''}'') t + 1))
              = Inl e"
  then show "analysis_result rt w c = Inl e"
    by (simp add: analysis_result_def extract_json_def ebind_def)
next
  fix pre post
  assume a: \<open>raw_text rt w c = Inr (PStr (pre @ ''{"x":1}'' @ post))
          \<and> CHR ''{'' \<notin> set pre \<and> CHR ''}'' \<notin> set post
          \<and> json_loads rt ''{"x":1}'' = Inr (PDict [(''x'', PInt 1)])\<close>
  have \<open>py_slice (pre @ ''{"x":1}'' @ post)
           (find_char (CHR ''{'') (pre @ ''{"x":1}'' @ post))
           (rfind_char (CHR ''}'') (pre @ ''{"x":1}'' @ post) + 1) = ''{"x":1}''\<close>
    using slice_embedded [of pre post \<open>''"x":1''\<close>] a by simp
  with a have "analysis_result rt w c = Inr [(''x'', PInt 1)]"
    by (simp add: analysis_result_def extract_json_def ebind_def)
  then show "map_of (add_analysis rt w c s) ''analysis.x'' = Some (PInt 1)"
    by (simp add: add_analysis_def update_conv')
next
  fix w' show "isl (snd (cost_events cfg rt w' acct b tp gs fd))
           = isl (snd (cost_events cfg rt w acct b tp gs fd))"
    by (rule cost_events_raises_independent)
next
  fix w' show "isl (snd (rec_events cfg rt w' acct recs))
           = isl (snd (rec_events cfg rt w acct recs))"
    by (rule rec_events_raises_independent)
qed


lemma scenario_raw_text:
  \<open>raw_text scenario_rt (scenario_world d) scenario_call
     = Inr (PStr (''Report: '' @ ''{"x":1}'' @ '' Regards''))\<close>
  by (simp add: raw_text_def scenario_rt_def scenario_world_def scenario_text_def ebind_def)

lemma braces_raw_text:
  \<open>raw_text scenario_rt braces_world scenario_call
     = Inr (PStr (''See {note}: '' @ ''{"x":1}''))\<close>
  by (simp add: raw_text_def scenario_rt_def braces_world_def scenario_world_def
        braces_text_def ebind_def)

lemma braces_analysis_result:
  "analysis_result scenario_rt braces_world scenario_call = Inl (ValueError, ''Expecting value'')"
  by code_simp

theorem C7_enrichment_witness:
  \<open>raw_text scenario_rt (scenario_world \<lparr>year = 2025, month = 7, day = 4\<rparr>) scenario_call
     = Inr (PStr (''Report: '' @ ''{"x":1}'' @ '' Regards''))
   \<and> map_of (add_analysis scenario_rt (scenario_world \<lparr>year = 2025, month = 7, day = 4\<rparr>)
               scenario_call []) ''analysis.x'' = Some (PInt 1)
   \<and> analysis_result scenario_rt braces_world scenario_call
       = Inl (ValueError, ''Expecting value'')
   \<and> map_of (add_analysis scenario_rt braces_world scenario_call []) ''analysis.error''
       = Some (PStr ''Expecting value'')\<close>
proof -
  let ?w = "scenario_world \<lparr>year = 2025, month = 7, day = 4\<rparr>"
  have j: \<open>json_loads scenario_rt ''{"x":1}'' = Inr (PDict [(''x'', PInt 1)])\<close>
    by (simp add: scenario_rt_def)
  have p: \<open>CHR ''{'' \<notin> set ''Report: ''\<close> \<open>CHR ''}'' \<notin> set '' Regards''\<close> by simp_all
  have hyp: \<open>raw_text scenario_rt ?w scenario_call
               = Inr (PStr (''Report: '' @ ''{"x":1}'' @ '' Regards''))
          \<and> CHR ''{'' \<notin> set ''Report: '' \<and> CHR ''}'' \<notin> set '' Regards''
          \<and> json_loads scenario_rt ''{"x":1}'' = Inr (PDict [(''x'', PInt 1)])\<close>
    using scenario_raw_text j p by blast
  note c7 = C7_enrichment [of scenario_rt ?w scenario_call "[]"]
  have x: "map_of (add_analysis scenario_rt ?w scenario_call []) ''analysis.x'' = Some (PInt 1)"
    using c7 hyp by blast
  note c7b = C7_enrichment [of scenario_rt braces_world scenario_call "[]"]
  have e: "map_of (add_analysis scenario_rt braces_world scenario_call []) ''analysis.error''
             = Some (PStr (snd (ValueError, ''Expecting value'')))"
    using c7b braces_analysis_result by blast
  show ?thesis
    apply (intro conjI)
       apply (rule scenario_raw_text)
      apply (rule x)
     apply (rule braces_analysis_result)
    using e apply simp
    done
qed

text \<open>
  C7 as stated fails for prose with braces of its own: the text \<open>See {note}: {"x":1}\<close>
  contains the object embedded in prose, but the text from the first \<open>{\<close> to the last
  \<open>}\<close> is \<open>{note}: {"x":1}\<close>, which is not JSON; the summary record gains
  \<open>analysis.error\<close> and no \<open>analysis.x\<close>.
\<close>

theorem C7_braces_in_prose:
  \<open>raw_text scenario_rt braces_world scenario_call
     = Inr (PStr (''See {note}: '' @ ''{"x":1}''))
   \<and> map_of (add_analysis scenario_rt braces_world scenario_call
              (summary_event scenario_cfg ''123456789012'' (''2025-07-01'', ''2025-07-04'') 10 0))
        ''analysis.x'' = None
   \<and> map_of (add_analysis scenario_rt braces_world scenario_call
              (summary_event scenario_cfg ''123456789012'' (''2025-07-01'', ''2025-07-04'') 10 0))
        ''analysis.error'' = Some (PStr ''Expecting value'')\<close>
proof (intro conjI)
  show \<open>raw_text scenario_rt braces_world scenario_call
     = Inr (PStr (''See {note}: '' @ ''{"x":1}''))\<close>
    by (rule braces_raw_text)
  show "map_of (add_analysis scenario_rt braces_world scenario_call
              (summary_event scenario_cfg ''123456789012'' (''2025-07-01'', ''2025-07-04'') 10 0))
        ''analysis.x'' = None"
    by (simp add: add_analysis_def braces_analysis_result update_conv' summary_event_def)
  show "map_of (add_analysis scenario_rt braces_world scenario_call
              (summary_event scenario_cfg ''123456789012'' (''2025-07-01'', ''2025-07-04'') 10 0))
        ''analysis.error'' = Some (PStr ''Expecting value'')"
    by (simp add: add_analysis_def braces_analysis_result update_conv')
qed

subsection \<open>Sending with retries\<close>

lemma send_attempts_three:
  "send_attempts w post [0, 1, 2] =
     (if attempt_ok w 0 then ([post], Inr ())
      else if attempt_ok w 1 then ([post, Sleep (1 + random_uniform w 0), post], Inr ())
      else if attempt_ok w 2
        then ([post, Sleep (1 + random_uniform w 0), post, Sleep (2 + random_uniform w 1), post],
              Inr ())
      else ([post, Sleep (1 + random_uniform w 0), post, Sleep (2 + random_uniform w 1), post,
             Sleep (4 + random_uniform w 2)],
            Inl (PlainException, ''Failed to send events to New Relic after all retries.'')))"
  by (simp add: attempt_ok_def)

lemma send_to_new_relic_value:
  assumes "evs \<noteq> []" "NEW_RELIC_LICENSE_KEY cfg = Some key"
  shows "send_to_new_relic cfg w evs = send_attempts w (post_request cfg key evs) [0, 1, 2]"
  using assms by (simp add: send_to_new_relic_def post_request_def Let_def)

text \<open>
  C2: for a non-empty event list the sender makes at most three POST attempts, all with the
  same request. The first attempt whose status is in [200, 300) ends the function without
  error and without a further attempt. After an attempt that fails (another status or a
  transport error) it sleeps 2 to the power of the attempt index, plus the jitter: 1, 2
  and 4 seconds plus jitter, so with jitter in [0, 1) each wait lies in [1, 2), [2, 3),
  [4, 5). After the third failed attempt (and its wait) it raises the delivery error.
\<close>

theorem C2_send_retries:
  assumes ne: "evs \<noteq> []" and key: "NEW_RELIC_LICENSE_KEY cfg = Some key"
  shows "send_to_new_relic cfg w evs =
           (if attempt_ok w 0 then ([post_request cfg key evs], Inr ())
            else if attempt_ok w 1
              then ([post_request cfg key evs, Sleep (1 + random_uniform w 0),
                     post_request cfg key evs], Inr ())
            else if attempt_ok w 2
              then ([post_request cfg key evs, Sleep (1 + random_uniform w 0),
                     post_request cfg key evs, Sleep (2 + random_uniform w 1),
                     post_request cfg key evs], Inr ())
            else ([post_request cfg key evs, Sleep (1 + random_uniform w 0),
                   post_request cfg key evs, Sleep (2 + random_uniform w 1),
                   post_request cfg key evs, Sleep (4 + random_uniform w 2)],
                  Inl (PlainException,
                       ''Failed to send events to New Relic after all retries.'')))
       \<and> length (filter is_post (fst (send_to_new_relic cfg w evs))) \<le> 3
       \<and> (length (filter is_post (fst (send_to_new_relic cfg w evs))) = 3
            \<longleftrightarrow> \<not> attempt_ok w 0 \<and> \<not> attempt_ok w 1)
       \<and> (snd (send_to_new_relic cfg w evs) = Inr ()
            \<longleftrightarrow> attempt_ok w 0 \<or> attempt_ok w 1 \<or> attempt_ok w 2)
       \<and> ((\<forall>i. 0 \<le> random_uniform w i \<and> random_uniform w i < 1) \<longrightarrow>
            list_all2 (\<lambda>s b. b \<le> s \<and> s < b + 1)
              (sleeps (fst (send_to_new_relic cfg w evs)))
              (take (length (sleeps (fst (send_to_new_relic cfg w evs)))) [1, 2, 4]))"
proof -
  have v: "send_to_new_relic cfg w evs = send_attempts w (post_request cfg key evs) [0, 1, 2]"
    using ne key by (rule send_to_new_relic_value)
  have p: "is_post (post_request cfg key evs)" by (simp add: post_request_def)
  have s: "sleeps (post_request cfg key evs # cs) = sleeps cs" for cs
    by (simp add: post_request_def)
  show ?thesis
    unfolding v send_attempts_three
    by (simp add: p s)
qed


lemma retry_ok: "\<not> attempt_ok retry_world 0" "attempt_ok retry_world 1"
  by (simp_all add: attempt_ok_def retry_world_def)

lemma failing_ok:
  "\<not> attempt_ok failing_world 0" "\<not> attempt_ok failing_world 1" "\<not> attempt_ok failing_world 2"
  by (simp_all add: attempt_ok_def failing_world_def)

theorem C2_send_retries_witness:
  "send_to_new_relic scenario_cfg retry_world [scenario_summary ''2025-07-01'' ''2025-07-04'']
     = ([post_request scenario_cfg ''key'' [scenario_summary ''2025-07-01'' ''2025-07-04''],
         Sleep (3 / 2),
         post_request scenario_cfg ''key'' [scenario_summary ''2025-07-01'' ''2025-07-04'']],
        Inr ())
   \<and> send_to_new_relic scenario_cfg failing_world
        [scenario_summary ''2025-07-01'' ''2025-07-04'']
     = ([post_request scenario_cfg ''key'' [scenario_summary ''2025-07-01'' ''2025-07-04''],
         Sleep (3 / 2),
         post_request scenario_cfg ''key'' [scenario_summary ''2025-07-01'' ''2025-07-04''],
         Sleep (5 / 2),
         post_request scenario_cfg ''key'' [scenario_summary ''2025-07-01'' ''2025-07-04''],
         Sleep (9 / 2)],
        Inl (PlainException, ''Failed to send events to New Relic after all retries.''))
   \<and> list_all2 (\<lambda>s b. b \<le> s \<and> s < b + 1)
        (sleeps (fst (send_to_new_relic scenario_cfg failing_world
           [scenario_summary ''2025-07-01'' ''2025-07-04''])))
        [1, 2, 4]"
proof -
  let ?evs = "[scenario_summary ''2025-07-01'' ''2025-07-04'']"
  have ne: "?evs \<noteq> []" by simp
  have key: "NEW_RELIC_LICENSE_KEY scenario_cfg = Some ''key''" by (simp add: scenario_cfg_def)
  have u: "random_uniform retry_world i = 1 / 2" "random_uniform failing_world i = 1 / 2" for i
    by (simp_all add: retry_world_def failing_world_def scenario_world_def)
  have a: "send_to_new_relic scenario_cfg retry_world ?evs
     = ([post_request scenario_cfg ''key'' ?evs, Sleep (3 / 2),
         post_request scenario_cfg ''key'' ?evs], Inr ())"
    using conjunct1 [OF C2_send_retries [OF ne key, of retry_world]] retry_ok u
    by simp
  have b: "send_to_new_relic scenario_cfg failing_world ?evs
     = ([post_request scenario_cfg ''key'' ?evs, Sleep (3 / 2),
         post_request scenario_cfg ''key'' ?evs, Sleep (5 / 2),
         post_request scenario_cfg ''key'' ?evs, Sleep (9 / 2)],
        Inl (PlainException, ''Failed to send events to New Relic after all retries.''))"
    using conjunct1 [OF C2_send_retries [OF ne key, of failing_world]] failing_ok u
    by simp
  have j: "\<forall>i. 0 \<le> random_uniform failing_world i \<and> random_uniform failing_world i < 1"
    by (simp add: u)
  have sl: "sleeps (fst (send_to_new_relic scenario_cfg failing_world ?evs)) = [3 / 2, 5 / 2, 9 / 2]"
    unfolding b by (simp add: post_request_def)
  have "list_all2 (\<lambda>s b. b \<le> s \<and> s < b + 1)
          (sleeps (fst (send_to_new_relic scenario_cfg failing_world ?evs)))
          (take (length (sleeps (fst (send_to_new_relic scenario_cfg failing_world ?evs))))
             [1, 2, 4])"
    using conjunct2 [OF conjunct2 [OF conjunct2 [OF conjunct2
            [OF C2_send_retries [OF ne key, of failing_world]]]], THEN mp, OF j] .
  then have c: "list_all2 (\<lambda>s b. b \<le> s \<and> s < b + 1)
          (sleeps (fst (send_to_new_relic scenario_cfg failing_world ?evs))) [1, 2, 4]"
    by (simp add: sl)
  show ?thesis using a b c by (intro conjI)
qed

subsection \<open>The handler\<close>

lemma lambda_handler_value:
  assumes cfgd: "configured (NEW_RELIC_LICENSE_KEY cfg)" "configured (NEW_RELIC_ACCOUNT_ID cfg)"
      and arn: "py_index (PList (map PStr (split_on (CHR '':'') arn))) 4 = Inr (PStr acct)"
      and c: "run_cost_explorer_workflow cfg rt w acct = Some (log1, r1)"
      and r: "run_recommendation_workflow cfg rt w acct = Some (log2, r2)"
  shows "lambda_handler cfg rt w arn =
           (if events_or_none r1 @ events_or_none r2 = []
            then Some (log1 @ log2, Inr (finished rt []))
            else Some (log1 @ log2 @ fst (send_to_new_relic cfg w (events_or_none r1 @ events_or_none r2)),
                       (case snd (send_to_new_relic cfg w (events_or_none r1 @ events_or_none r2)) of
                          Inl e \<Rightarrow> Inl e
                        | Inr u \<Rightarrow> Inr (finished rt (events_or_none r1 @ events_or_none r2)))))"
  using assms
  by (simp add: lambda_handler_def Let_def split: prod.splits sum.splits)

text \<open>
  C3: in an invocation with the credentials configured where both workflows come to an
  end, when exactly one of them raises, that one contributes no event and the events of
  the other are what the sender is called with (it is not called when there are none);
  the handler then returns the result with status 200 when the sender returns, which it
  does when one of its three attempts is accepted, and the sender's exception leaves the
  handler when the sender raises, which it does when all three attempts fail. In every
  invocation an exception of the sender leaves the handler.
\<close>

theorem C3_failure_isolation:
  assumes cfgd: "configured (NEW_RELIC_LICENSE_KEY cfg)" "configured (NEW_RELIC_ACCOUNT_ID cfg)"
      and arn: "py_index (PList (map PStr (split_on (CHR '':'') arn))) 4 = Inr (PStr acct)"
      and c: "run_cost_explorer_workflow cfg rt w acct = Some (log1, r1)"
      and r: "run_recommendation_workflow cfg rt w acct = Some (log2, r2)"
  shows "(\<forall>e evs. (r1 = Inl e \<and> r2 = Inr evs) \<or> (r1 = Inr evs \<and> r2 = Inl e) \<longrightarrow>
            (evs = [] \<longrightarrow>
               lambda_handler cfg rt w arn = Some (log1 @ log2, Inr (finished rt [])))
          \<and> (evs \<noteq> [] \<longrightarrow>
               (\<exists>res. lambda_handler cfg rt w arn
                        = Some (log1 @ log2 @ fst (send_to_new_relic cfg w evs), res)
                    \<and> (\<forall>u. snd (send_to_new_relic cfg w evs) = Inr u
                           \<longrightarrow> res = Inr (finished rt evs))
                    \<and> (\<forall>x. snd (send_to_new_relic cfg w evs) = Inl x \<longrightarrow> res = Inl x)
                    \<and> (attempt_ok w 0 \<or> attempt_ok w 1 \<or> attempt_ok w 2
                           \<longrightarrow> res = Inr (finished rt evs))
                    \<and> (\<not> attempt_ok w 0 \<and> \<not> attempt_ok w 1 \<and> \<not> attempt_ok w 2
                           \<longrightarrow> res = Inl (PlainException,
                                  ''Failed to send events to New Relic after all retries.''))))
          \<and> statusCode (finished rt evs) = 200)
       \<and> (\<forall>x. events_or_none r1 @ events_or_none r2 \<noteq> []
              \<and> snd (send_to_new_relic cfg w (events_or_none r1 @ events_or_none r2)) = Inl x
            \<longrightarrow> (\<exists>calls. lambda_handler cfg rt w arn = Some (calls, Inl x)))"
proof -
  note hv = lambda_handler_value [OF cfgd arn c r]
  obtain key where key: "NEW_RELIC_LICENSE_KEY cfg = Some key"
    using cfgd(1) by (auto simp: configured_def split: option.splits)
  have sv: "send_to_new_relic cfg w evs = send_attempts w (post_request cfg key evs) [0, 1, 2]"
    if "evs \<noteq> []" for evs
    using that key by (rule send_to_new_relic_value)
  have body: "(evs = [] \<longrightarrow>
               lambda_handler cfg rt w arn = Some (log1 @ log2, Inr (finished rt [])))
          \<and> (evs \<noteq> [] \<longrightarrow>
               (\<exists>res. lambda_handler cfg rt w arn
                        = Some (log1 @ log2 @ fst (send_to_new_relic cfg w evs), res)
                    \<and> (\<forall>u. snd (send_to_new_relic cfg w evs) = Inr u
                           \<longrightarrow> res = Inr (finished rt evs))
                    \<and> (\<forall>x. snd (send_to_new_relic cfg w evs) = Inl x \<longrightarrow> res = Inl x)
                    \<and> (attempt_ok w 0 \<or> attempt_ok w 1 \<or> attempt_ok w 2
                           \<longrightarrow> res = Inr (finished rt evs))
                    \<and> (\<not> attempt_ok w 0 \<and> \<not> attempt_ok w 1 \<and> \<not> attempt_ok w 2
                           \<longrightarrow> res = Inl (PlainException,
                                  ''Failed to send events to New Relic after all retries.''))))
          \<and> statusCode (finished rt evs) = 200"
    if all: "events_or_none r1 @ events_or_none r2 = evs" for evs
  proof (intro conjI impI)
    assume "evs = []"
    with hv all show "lambda_handler cfg rt w arn = Some (log1 @ log2, Inr (finished rt []))"
      by simp
  next
    assume ne: "evs \<noteq> []"
    let ?res = "case snd (send_to_new_relic cfg w evs) of
                  Inl e \<Rightarrow> Inl e | Inr u \<Rightarrow> Inr (finished rt evs)"
    have h: "lambda_handler cfg rt w arn
               = Some (log1 @ log2 @ fst (send_to_new_relic cfg w evs), ?res)"
      using hv [unfolded all] ne by simp
    have ok: "attempt_ok w 0 \<or> attempt_ok w 1 \<or> attempt_ok w 2 \<Longrightarrow> ?res = Inr (finished rt evs)"
      unfolding sv [OF ne] send_attempts_three by auto
    have bad: "\<not> attempt_ok w 0 \<and> \<not> attempt_ok w 1 \<and> \<not> attempt_ok w 2 \<Longrightarrow>
        ?res = Inl (PlainException, ''Failed to send events to New Relic after all retries.'')"
      unfolding sv [OF ne] send_attempts_three by simp
    show "\<exists>res. lambda_handler cfg rt w arn
                        = Some (log1 @ log2 @ fst (send_to_new_relic cfg w evs), res)
                    \<and> (\<forall>u. snd (send_to_new_relic cfg w evs) = Inr u
                           \<longrightarrow> res = Inr (finished rt evs))
                    \<and> (\<forall>x. snd (send_to_new_relic cfg w evs) = Inl x \<longrightarrow> res = Inl x)
                    \<and> (attempt_ok w 0 \<or> attempt_ok w 1 \<or> attempt_ok w 2
                           \<longrightarrow> res = Inr (finished rt evs))
                    \<and> (\<not> attempt_ok w 0 \<and> \<not> attempt_ok w 1 \<and> \<not> attempt_ok w 2
                           \<longrightarrow> res = Inl (PlainException,
                                  ''Failed to send events to New Relic after all retries.''))"
      using h ok bad by (intro exI [of _ ?res]) simp
  next
    show "statusCode (finished rt evs) = 200" by (simp add: finished_def)
  qed
  have first: "\<forall>e evs. (r1 = Inl e \<and> r2 = Inr evs) \<or> (r1 = Inr evs \<and> r2 = Inl e) \<longrightarrow>
            (evs = [] \<longrightarrow>
               lambda_handler cfg rt w arn = Some (log1 @ log2, Inr (finished rt [])))
          \<and> (evs \<noteq> [] \<longrightarrow>
               (\<exists>res. lambda_handler cfg rt w arn
                        = Some (log1 @ log2 @ fst (send_to_new_relic cfg w evs), res)
                    \<and> (\<forall>u. snd (send_to_new_relic cfg w evs) = Inr u
                           \<longrightarrow> res = Inr (finished rt evs))
                    \<and> (\<forall>x. snd (send_to_new_relic cfg w evs) = Inl x \<longrightarrow> res = Inl x)
                    \<and> (attempt_ok w 0 \<or> attempt_ok w 1 \<or> attempt_ok w 2
                           \<longrightarrow> res = Inr (finished rt evs))
                    \<and> (\<not> attempt_ok w 0 \<and> \<not> attempt_ok w 1 \<and> \<not> attempt_ok w 2
                           \<longrightarrow> res = Inl (PlainException,
                                  ''Failed to send events to New Relic after all retries.''))))
          \<and> statusCode (finished rt evs) = 200"
  proof (intro allI impI)
    fix e evs
    assume "(r1 = Inl e \<and> r2 = Inr evs) \<or> (r1 = Inr evs \<and> r2 = Inl e)"
    then have "events_or_none r1 @ events_or_none r2 = evs"
      by (auto simp: events_or_none_def)
    then show "(evs = [] \<longrightarrow>
               lambda_handler cfg rt w arn = Some (log1 @ log2, Inr (finished rt [])))
          \<and> (evs \<noteq> [] \<longrightarrow>
               (\<exists>res. lambda_handler cfg rt w arn
                        = Some (log1 @ log2 @ fst (send_to_new_relic cfg w evs), res)
                    \<and> (\<forall>u. snd (send_to_new_relic cfg w evs) = Inr u
                           \<longrightarrow> res = Inr (finished rt evs))
                    \<and> (\<forall>x. snd (send_to_new_relic cfg w evs) = Inl x \<longrightarrow> res = Inl x)
                    \<and> (attempt_ok w 0 \<or> attempt_ok w 1 \<or> attempt_ok w 2
                           \<longrightarrow> res = Inr (finished rt evs))
                    \<and> (\<not> attempt_ok w 0 \<and> \<not> attempt_ok w 1 \<and> \<not> attempt_ok w 2
                           \<longrightarrow> res = Inl (PlainException,
                                  ''Failed to send events to New Relic after all retries.''))))
          \<and> statusCode (finished rt evs) = 200"
      by (rule body)
  qed
  have second: "\<forall>x. events_or_none r1 @ events_or_none r2 \<noteq> []
              \<and> snd (send_to_new_relic cfg w (events_or_none r1 @ events_or_none r2)) = Inl x
            \<longrightarrow> (\<exists>calls. lambda_handler cfg rt w arn = Some (calls, Inl x))"
    using hv by simp
  show ?thesis using first second by (rule conjI)
qed


lemma scenario_arn_account:
  "py_index (PList (map PStr (split_on (CHR '':'') scenario_arn))) 4 = Inr (PStr ''123456789012'')"
  by code_simp

lemma cost_down_cost_run:
  "run_cost_explorer_workflow scenario_cfg scenario_rt cost_down_world ''123456789012''
     = Some ([cost_params scenario_cfg (''2025-07-01'', ''2025-07-04'') None],
             Inl (ClientError, ''AccessDeniedException''))"
  by code_simp

lemma cost_down_rec_events:
  "length (returned_events (run_recommendation_workflow scenario_cfg scenario_rt
             cost_down_world ''123456789012'')) = 2"
  by code_simp

theorem C3_failure_isolation_witness:
  "\<exists>log1 e log2 evs.
      run_cost_explorer_workflow scenario_cfg scenario_rt cost_down_world ''123456789012''
        = Some (log1, Inl e)
    \<and> run_recommendation_workflow scenario_cfg scenario_rt cost_down_world ''123456789012''
        = Some (log2, Inr evs)
    \<and> length evs = 2
    \<and> lambda_handler scenario_cfg scenario_rt cost_down_world scenario_arn
        = Some (log1 @ log2 @ [post_request scenario_cfg ''key'' evs],
                Inr (finished scenario_rt evs))
    \<and> statusCode (finished scenario_rt evs) = 200"
proof -
  let ?w = cost_down_world
  let ?log1 = "[cost_params scenario_cfg (''2025-07-01'', ''2025-07-04'') None]"
  let ?e = "(ClientError, ''AccessDeniedException'')"
  let ?evs = "returned_events (run_recommendation_workflow scenario_cfg scenario_rt ?w
                ''123456789012'')"
  have l: "length ?evs = 2" by (rule cost_down_rec_events)
  then have ne: "?evs \<noteq> []" by auto
  from returned_events_Some [OF ne] obtain log2 where r:
    "run_recommendation_workflow scenario_cfg scenario_rt ?w ''123456789012''
       = Some (log2, Inr ?evs)" ..
  have cfgd: "configured (NEW_RELIC_LICENSE_KEY scenario_cfg)"
      "configured (NEW_RELIC_ACCOUNT_ID scenario_cfg)"
    by (simp_all add: configured_def scenario_cfg_def)
  have key: "NEW_RELIC_LICENSE_KEY scenario_cfg = Some ''key''" by (simp add: scenario_cfg_def)
  have ok: "attempt_ok ?w 0" by (simp add: attempt_ok_def cost_down_world_def scenario_world_def)
  have sent: "fst (send_to_new_relic scenario_cfg ?w ?evs) = [post_request scenario_cfg ''key'' ?evs]"
    unfolding send_to_new_relic_value [OF ne key] send_attempts_three using ok by simp
  note c3 = C3_failure_isolation [OF cfgd scenario_arn_account cost_down_cost_run r]
  from c3 have "(?evs = [] \<longrightarrow>
               lambda_handler scenario_cfg scenario_rt ?w scenario_arn
                 = Some (?log1 @ log2, Inr (finished scenario_rt [])))
          \<and> (?evs \<noteq> [] \<longrightarrow>
               (\<exists>res. lambda_handler scenario_cfg scenario_rt ?w scenario_arn
                        = Some (?log1 @ log2 @ fst (send_to_new_relic scenario_cfg ?w ?evs), res)
                    \<and> (\<forall>u. snd (send_to_new_relic scenario_cfg ?w ?evs) = Inr u
                           \<longrightarrow> res = Inr (finished scenario_rt ?evs))
                    \<and> (\<forall>x. snd (send_to_new_relic scenario_cfg ?w ?evs) = Inl x \<longrightarrow> res = Inl x)
                    \<and> (attempt_ok ?w 0 \<or> attempt_ok ?w 1 \<or> attempt_ok ?w 2
                           \<longrightarrow> res = Inr (finished scenario_rt ?evs))
                    \<and> (\<not> attempt_ok ?w 0 \<and> \<not> attempt_ok ?w 1 \<and> \<not> attempt_ok ?w 2
                           \<longrightarrow> res = Inl (PlainException,
                                  ''Failed to send events to New Relic after all retries.''))))
          \<and> statusCode (finished scenario_rt ?evs) = 200"
    by (elim conjE allE [of _ ?e] allE [of _ ?evs]) (erule impE, rule disjI1, simp, assumption)
  with ne ok sent have h: "lambda_handler scenario_cfg scenario_rt ?w scenario_arn
        = Some (?log1 @ log2 @ [post_request scenario_cfg ''key'' ?evs],
                Inr (finished scenario_rt ?evs))"
    and st: "statusCode (finished scenario_rt ?evs) = 200"
    by auto
  show ?thesis
    apply (rule exI [of _ ?log1])
    apply (rule exI [of _ ?e])
    apply (rule exI [of _ log2])
    apply (rule exI [of _ ?evs])
    apply (intro conjI)
        apply (rule cost_down_cost_run)
       apply (rule r)
      apply (rule l)
     apply (rule h)
    apply (rule st)
    done
qed

end
